theory Spec2Isabelle
  imports Main "HOL-Library.Word"
begin

section \<open>Values of the JavaScript program\<close>

text \<open>
  The values that travel through \<^verbatim>\<open>generic-webdriver-server.js\<close>: parsed JSON request
  bodies, response payloads, and the \<^verbatim>\<open>undefined\<close> that reading a missing property
  gives. An object is the parsed object, a finite map from property names to values, kept
  as an association list read with \<open>map_of\<close>. Only the zero-ness of a number is ever
  looked at (by \<^verbatim>\<open>!body.url\<close>), so numbers are integers here.
\<close>

datatype jsval =
    JUndefined
  | JNull
  | JBool bool
  | JNum int
  | JStr string
  | JArr "jsval list"
  | JObj "(string \<times> jsval) list"

text \<open>JavaScript's ToBoolean, which \<^verbatim>\<open>!x\<close> and \<^verbatim>\<open>if (x)\<close> apply.\<close>

fun truthy :: "jsval \<Rightarrow> bool" where
  "truthy JUndefined = False"
| "truthy JNull = False"
| "truthy (JBool b) = b"
| "truthy (JNum n) = (n \<noteq> 0)"
| "truthy (JStr s) = (s \<noteq> [])"
| "truthy (JArr xs) = True"
| "truthy (JObj kvs) = True"

section \<open>Response model (lines 61--154)\<close>

text \<open>
  \<^verbatim>\<open>class GenericWebDriverResponse\<close> has the two fields \<^verbatim>\<open>value\<close> and
  \<^verbatim>\<open>httpStatusCode\<close>; each subclass only fixes the arguments of the base constructor.
\<close>

record response =
  val :: jsval
  httpStatusCode :: nat

definition Success :: "jsval \<Rightarrow> response" where
  "Success v = \<lparr>val = v, httpStatusCode = 200\<rparr>"

definition SessionNotCreatedError :: response where
  "SessionNotCreatedError =
     \<lparr>val = JObj [(''error'', JStr ''session not created'')], httpStatusCode = 500\<rparr>"

definition UnknownCommandError :: response where
  "UnknownCommandError =
     \<lparr>val = JObj [(''error'', JStr ''unknown command'')], httpStatusCode = 404\<rparr>"

definition InvalidArgumentError :: response where
  "InvalidArgumentError =
     \<lparr>val = JObj [(''error'', JStr ''invalid argument'')], httpStatusCode = 400\<rparr>"

definition InvalidSessionIdError :: response where
  "InvalidSessionIdError =
     \<lparr>val = JObj [(''error'', JStr ''invalid session id'')], httpStatusCode = 404\<rparr>"

definition UnableToCaptureScreenError :: response where
  "UnableToCaptureScreenError =
     \<lparr>val = JObj [(''error'', JStr ''unable to capture screen'')], httpStatusCode = 500\<rparr>"

definition UnknownError :: response where
  "UnknownError =
     \<lparr>val = JObj [(''error'', JStr ''unknown error'')], httpStatusCode = 500\<rparr>"

text \<open>
  A JavaScript \<^verbatim>\<open>throw\<close> carries any value. The dispatcher tells two kinds apart with
  \<^verbatim>\<open>error instanceof GenericWebDriverResponse\<close>: a response thrown on purpose, and
  everything else (a \<^verbatim>\<open>TypeError\<close>, an \<^verbatim>\<open>Error\<close> of a backend), kept by its message.
  A call that may throw returns \<open>thrown + 'a\<close>, with \<open>Inl\<close> for the throw.
\<close>

datatype thrown = ThrownResponse response | ThrownOther string

section \<open>The server object, the timers of the runtime, and what the outside sees\<close>

datatype listener = Listening | Closed

text \<open>
  A \<^verbatim>\<open>Timeout\<close> object of the runtime. Every timer of this program runs the same callback
  (lines 505--508), so only its status and delay are kept. \<open>armedFor\<close> is a history
  field for stating properties: the value \<^verbatim>\<open>this.sessionId_\<close> had when \<^verbatim>\<open>setTimeout\<close>
  made the timer. No operation reads it.
\<close>

datatype timer_status = Armed | Fired | Cleared

record timer =
  status :: timer_status
  delay :: int
  armedFor :: string

datatype level = LDebug | LInfo | LError

datatype logarg = LStr string | LThrown thrown

text \<open>
  What the server does to the outside, in order: lines written to \<^verbatim>\<open>this.log\<close>,
  calls of backend hooks (recorded when the hook is called), and \<^verbatim>\<open>refresh()\<close> calls on
  a timer.
\<close>

datatype effect =
    Logged level "logarg list"
  | NavigateHook jsval
  | CloseHook
  | ShutdownHook
  | ScreenshotHook string
  | Refreshed nat

text \<open>
  The parsed command line. Both numbers are whole numbers here. The port is checked to be
  a whole number from 1 to 65535 (lines 49--59); the idle timeout is not checked at all.
\<close>

record flags =
  port :: int
  logPath :: "string option"
  idleTimeoutSeconds :: int

text \<open>
  \<^verbatim>\<open>GenericSingleSessionWebDriverServer\<close>: the fields \<^verbatim>\<open>flags\<close>, \<^verbatim>\<open>server\<close>,
  \<^verbatim>\<open>sessionId_\<close> and \<^verbatim>\<open>timeout_\<close> of the object (a timer handle is its index in the
  runtime's table), together with that table and the effects so far.
\<close>

record single_session_server =
  flags :: flags
  server :: "listener option"
  this_sessionId :: string
  this_timeout :: "nat option"
  timers :: "timer list"
  effects :: "effect list"

text \<open>
  The hooks a backend subclass overrides, each given by how its call ends. A hook that
  never settles is outside this model.
\<close>

record backend =
  navigateToSingleSession :: "jsval \<Rightarrow> thrown + unit"
  closeSingleSession :: "thrown + unit"
  shutdownSingleSession :: "thrown + unit"
  screenshot :: "string \<Rightarrow> thrown + 8 word list"

text \<open>The hooks as the two classes of the file define them (lines 420--422, 564--585).\<close>

definition base_backend :: backend where
  "base_backend =
     \<lparr>navigateToSingleSession = (\<lambda>url. Inl (ThrownResponse InvalidSessionIdError)),
      closeSingleSession = Inl (ThrownResponse InvalidSessionIdError),
      shutdownSingleSession = Inr (),
      screenshot = (\<lambda>sessionId. Inl (ThrownResponse UnableToCaptureScreenError))\<rparr>"

definition NUM_RANDOM_ID_BYTES :: nat where
  "NUM_RANDOM_ID_BYTES = 16"

definition MILLISECONDS_PER_SECOND :: int where
  "MILLISECONDS_PER_SECOND = 1000"

section \<open>Runtime primitives\<close>

text \<open>
  \<^verbatim>\<open>crypto.randomBytes(n)\<close> yields a buffer of exactly \<open>n\<close> bytes; which bytes is up to
  the random source, here the parameter \<open>rng\<close> (byte \<open>i\<close> of this draw). A random source
  that reports an error instead of bytes is outside this model.
\<close>

definition randomBytes :: "nat \<Rightarrow> (nat \<Rightarrow> 8 word) \<Rightarrow> 8 word list" where
  "randomBytes n rng = map rng [0..<n]"

definition hexAlphabet :: string where
  "hexAlphabet = ''0123456789abcdef''"

definition hexDigit :: "nat \<Rightarrow> char" where
  "hexDigit n = hexAlphabet ! (n mod 16)"

definition hexByte :: "8 word \<Rightarrow> string" where
  "hexByte b = [hexDigit (unat b div 16), hexDigit (unat b mod 16)]"

text \<open>\<^verbatim>\<open>Buffer.toString('hex')\<close>: two lower-case digits a byte, high nibble first.\<close>

definition toString_hex :: "8 word list \<Rightarrow> string" where
  "toString_hex bytes = concat (map hexByte bytes)"

definition base64Digit :: "nat \<Rightarrow> char" where
  "base64Digit n =
     ''ABCDEFGHIJKLMNOPQRSTUVWXYZabcdefghijklmnopqrstuvwxyz0123456789+/'' ! (n mod 64)"

text \<open>\<^verbatim>\<open>Buffer.toString('base64')\<close>: three bytes give four digits, padded with \<^verbatim>\<open>=\<close>.\<close>

fun base64 :: "nat list \<Rightarrow> string" where
  "base64 [] = []"
| "base64 [a] = [base64Digit (a div 4), base64Digit ((a mod 4) * 16), CHR ''='', CHR ''='']"
| "base64 [a, b] =
     [base64Digit (a div 4), base64Digit ((a mod 4) * 16 + b div 16),
      base64Digit ((b mod 16) * 4), CHR ''='']"
| "base64 (a # b # c # rest) =
     [base64Digit (a div 4), base64Digit ((a mod 4) * 16 + b div 16),
      base64Digit ((b mod 16) * 4 + c div 64), base64Digit (c mod 64)] @ base64 rest"

definition toString_base64 :: "8 word list \<Rightarrow> string" where
  "toString_base64 bytes = base64 (map unat bytes)"

definition logTo :: "level \<Rightarrow> logarg list \<Rightarrow> single_session_server \<Rightarrow> single_session_server" where
  "logTo l args st = st\<lparr>effects := effects st @ [Logged l args]\<rparr>"

definition emit :: "effect \<Rightarrow> single_session_server \<Rightarrow> single_session_server" where
  "emit e st = st\<lparr>effects := effects st @ [e]\<rparr>"

text \<open>
  \<^verbatim>\<open>setTimeout(callback, ms)\<close>: a new armed timer; the handle is returned. The runtime
  arms the timer for 1 millisecond when \<^verbatim>\<open>ms\<close> is below 1 or above 2147483647
  (\<open>timerDelay\<close>); \<open>delay\<close> is the time the timer is armed for.
\<close>

definition TIMEOUT_MAX :: int where
  "TIMEOUT_MAX = 2147483647"

definition timerDelay :: "int \<Rightarrow> int" where
  "timerDelay ms = (if 1 \<le> ms \<and> ms \<le> TIMEOUT_MAX then ms else 1)"

definition setTimeout :: "int \<Rightarrow> single_session_server \<Rightarrow> nat \<times> single_session_server" where
  "setTimeout ms st =
     (length (timers st),
      st\<lparr>timers := timers st @
           [\<lparr>status = Armed, delay = timerDelay ms, armedFor = this_sessionId st\<rparr>]\<rparr>)"

text \<open>\<^verbatim>\<open>clearTimeout(handle)\<close>: the timer will not fire; \<^verbatim>\<open>clearTimeout(null)\<close> does nothing.\<close>

definition clearTimeout :: "nat option \<Rightarrow> single_session_server \<Rightarrow> single_session_server" where
  "clearTimeout handle st =
     (case handle of
        None \<Rightarrow> st
      | Some h \<Rightarrow>
          if h < length (timers st)
          then st\<lparr>timers := (timers st)[h := (timers st ! h)\<lparr>status := Cleared\<rparr>]\<rparr>
          else st)"

text \<open>
  \<^verbatim>\<open>timeout.refresh()\<close>: restarts the clock of an armed timer, arms again a timer that
  has fired, and leaves a cleared one alone.
\<close>

definition refresh :: "nat \<Rightarrow> single_session_server \<Rightarrow> single_session_server" where
  "refresh h st =
     (let st1 = emit (Refreshed h) st
      in if h < length (timers st1) \<and> status (timers st1 ! h) = Fired
         then st1\<lparr>timers := (timers st1)[h := (timers st1 ! h)\<lparr>status := Armed\<rparr>]\<rparr>
         else st1)"

section \<open>Single-session lifecycle manager (lines 462--586)\<close>

definition initial :: "flags \<Rightarrow> single_session_server" where
  "initial fl =
     \<lparr>flags = fl, server = None, this_sessionId = [], this_timeout = None, timers = [], effects = []\<rparr>"

text \<open>A whole number as JavaScript prints it when it is joined to a string.\<close>

fun decimal :: "nat \<Rightarrow> string" where
  "decimal n =
     (if n < 10 then [''0123456789'' ! n]
      else decimal (n div 10) @ [''0123456789'' ! (n mod 10)])"

definition numberToString :: "int \<Rightarrow> string" where
  "numberToString i = (if i < 0 then CHR ''-'' # decimal (nat (- i)) else decimal (nat i))"

text \<open>\<^verbatim>\<open>listen()\<close>, lines 359--362.\<close>

definition listen :: "single_session_server \<Rightarrow> single_session_server" where
  "listen st =
     (logTo LInfo [LStr (''Listening on port '' @ numberToString (port (flags st)))] st)
       \<lparr>server := Some Listening\<rparr>"

definition ready :: "single_session_server \<Rightarrow> bool" where
  "ready st = (this_sessionId st = [])"

text \<open>
  \<^verbatim>\<open>createSession()\<close> has one \<^verbatim>\<open>await\<close>, on \<^verbatim>\<open>randomBytes\<close>, between its check and its
  writes. \<open>createSession_rejected\<close> is the branch of the check, \<open>createSession_resume\<close>
  the part after the \<^verbatim>\<open>await\<close>; \<open>createSession\<close> is the call when nothing else runs in
  between.
\<close>

definition createSession_rejected :: "single_session_server \<Rightarrow> string option \<times> single_session_server" where
  "createSession_rejected st =
     (None, logTo LError [LStr ''createSession() called when we were not ready!''] st)"

definition createSession_resume ::
  "(nat \<Rightarrow> 8 word) \<Rightarrow> single_session_server \<Rightarrow> string option \<times> single_session_server" where
  "createSession_resume rng st =
     (let bytes = randomBytes NUM_RANDOM_ID_BYTES rng;
          st1 = st\<lparr>this_sessionId := toString_hex bytes\<rparr>;
          st2 = logTo LDebug [LStr ''Session ID'', LStr (this_sessionId st1), LStr ''created''] st1;
          (h, st3) = setTimeout (idleTimeoutSeconds (flags st2) * MILLISECONDS_PER_SECOND) st2;
          st4 = st3\<lparr>this_timeout := Some h\<rparr>
      in (Some (this_sessionId st4), st4))"

definition createSession ::
  "(nat \<Rightarrow> 8 word) \<Rightarrow> single_session_server \<Rightarrow> string option \<times> single_session_server" where
  "createSession rng st =
     (if this_sessionId st \<noteq> [] then createSession_rejected st
      else createSession_resume rng st)"

text \<open>
  \<^verbatim>\<open>this.timeout_.refresh()\<close> on a \<^verbatim>\<open>null\<close> handle throws a \<^verbatim>\<open>TypeError\<close>.
\<close>

definition nullRefresh :: thrown where
  "nullRefresh = ThrownOther ''TypeError: Cannot read properties of null (reading 'refresh')''"

definition navigateTo ::
  "backend \<Rightarrow> string \<Rightarrow> jsval \<Rightarrow> single_session_server \<Rightarrow> (thrown + unit) \<times> single_session_server" where
  "navigateTo be sessionId url st =
     (if this_sessionId st = [] \<or> sessionId \<noteq> this_sessionId st
      then (Inl (ThrownResponse InvalidSessionIdError), st)
      else case this_timeout st of
             None \<Rightarrow> (Inl nullRefresh, st)
           | Some h \<Rightarrow>
               (let st1 = refresh h st;
                    st2 = emit (NavigateHook url) st1
                in (navigateToSingleSession be url, st2)))"

definition getTitle ::
  "string \<Rightarrow> single_session_server \<Rightarrow> (thrown + string) \<times> single_session_server" where
  "getTitle sessionId st =
     (if this_sessionId st = [] \<or> sessionId \<noteq> this_sessionId st
      then (Inl (ThrownResponse InvalidSessionIdError), st)
      else case this_timeout st of
             None \<Rightarrow> (Inl nullRefresh, st)
           | Some h \<Rightarrow> (Inr ''Title of the page'', refresh h st))"

text \<open>
  \<^verbatim>\<open>closeSession(sessionId)\<close> runs up to the call of the close hook at once
  (\<open>closeSession_sync\<close>; its flag says whether the hook was called). After the hook has
  settled, the \<^verbatim>\<open>catch\<close> block logs what the hook threw (\<open>closeSession_settle\<close>) and
  the call ends normally.
\<close>

definition closeSession_sync :: "string \<Rightarrow> single_session_server \<Rightarrow> bool \<times> single_session_server" where
  "closeSession_sync sessionId st =
     (if this_sessionId st = [] \<or> sessionId \<noteq> this_sessionId st then (False, st)
      else
        (let st1 = logTo LDebug [LStr ''Session ID'', LStr (this_sessionId st), LStr ''released''] st;
             st2 = st1\<lparr>this_sessionId := []\<rparr>;
             st3 = clearTimeout (this_timeout st2) st2;
             st4 = st3\<lparr>this_timeout := None\<rparr>
         in (True, emit CloseHook st4)))"

definition closeSession_settle ::
  "backend \<Rightarrow> bool \<Rightarrow> single_session_server \<Rightarrow> (thrown + unit) \<times> single_session_server" where
  "closeSession_settle be called st =
     (if called
      then (case closeSingleSession be of
              Inr u \<Rightarrow> (Inr (), st)
            | Inl error \<Rightarrow> (Inr (), logTo LError [LThrown error] st))
      else (Inr (), st))"

definition closeSession ::
  "backend \<Rightarrow> string \<Rightarrow> single_session_server \<Rightarrow> (thrown + unit) \<times> single_session_server" where
  "closeSession be sessionId st =
     (let (called, st1) = closeSession_sync sessionId st
      in closeSession_settle be called st1)"

text \<open>
  \<^verbatim>\<open>shutdown()\<close> calls \<^verbatim>\<open>closeSession\<close> without \<^verbatim>\<open>await\<close>: the close hook is called,
  then the shutdown hook is called, and what the close hook threw is logged after that.
  The promise of \<^verbatim>\<open>closeSession\<close> is dropped.
\<close>

definition shutdown ::
  "backend \<Rightarrow> single_session_server \<Rightarrow> (thrown + unit) \<times> single_session_server" where
  "shutdown be st =
     (let (called, st1) =
            (if this_sessionId st \<noteq> [] then closeSession_sync (this_sessionId st) st else (False, st));
          st2 = emit ShutdownHook st1;
          st3 = snd (closeSession_settle be called st2)
      in (shutdownSingleSession be, st3))"

text \<open>
  The callback of the idle timer (lines 505--508), run when timer \<open>h\<close> fires. A timer
  that is not armed does not fire. The callback reads \<^verbatim>\<open>this.sessionId_\<close> when it runs.
\<close>

definition timerFires :: "backend \<Rightarrow> nat \<Rightarrow> single_session_server \<Rightarrow> single_session_server" where
  "timerFires be h st =
     (if h < length (timers st) \<and> status (timers st ! h) = Armed
      then
        (let st1 = st\<lparr>timers := (timers st)[h := (timers st ! h)\<lparr>status := Fired\<rparr>]\<rparr>;
             st2 = logTo LInfo [LStr ''Activity timeout.  Releasing session.''] st1
         in snd (closeSession be (this_sessionId st2) st2))
      else st)"

section \<open>Protocol dispatcher (lines 221--353)\<close>

text \<open>
  What is handed to Express: the HTTP status and the object given to \<^verbatim>\<open>json()\<close>.
  Matching a method and path to a route, and parsing the body, are Express's work. The
  middleware of lines 228--232, which writes one log line for each request before its
  handler runs, is left out.
\<close>

record wire =
  statusCode :: nat
  json :: jsval

definition send :: "response \<Rightarrow> wire" where
  "send response = \<lparr>statusCode = httpStatusCode response, json = JObj [(''value'', val response)]\<rparr>"

text \<open>
  \<^verbatim>\<open>apiWrapper(fn)\<close>, lines 248--277. \<open>fn\<close> is the handler already applied to the URL
  parameters and the body; it returns a response or throws.
\<close>

definition apiWrapper ::
  "(single_session_server \<Rightarrow> (thrown + response) \<times> single_session_server)
   \<Rightarrow> single_session_server \<Rightarrow> wire \<times> single_session_server" where
  "apiWrapper fn st =
     (let (result, st1) = fn st
      in case result of
           Inr response \<Rightarrow> (send response, st1)
         | Inl (ThrownResponse error) \<Rightarrow> (send error, st1)
         | Inl (ThrownOther error) \<Rightarrow>
             (send UnknownError,
              logTo LError [LStr ''Caught error:'', LThrown (ThrownOther error)] st1))"

text \<open>
  \<^verbatim>\<open>body.url\<close>: reading a property of \<^verbatim>\<open>undefined\<close> or \<^verbatim>\<open>null\<close> throws, a missing
  property reads as \<^verbatim>\<open>undefined\<close>, and no array, string, number or boolean has a
  property \<^verbatim>\<open>url\<close>.
\<close>

fun body_url :: "jsval \<Rightarrow> thrown + jsval" where
  "body_url JUndefined =
     Inl (ThrownOther ''TypeError: Cannot read properties of undefined (reading 'url')'')"
| "body_url JNull =
     Inl (ThrownOther ''TypeError: Cannot read properties of null (reading 'url')'')"
| "body_url (JObj kvs) = Inr (case map_of kvs ''url'' of None \<Rightarrow> JUndefined | Some v \<Rightarrow> v)"
| "body_url other = Inr JUndefined"

text \<open>The routes in the order they are registered; the last one catches everything else.\<close>

datatype route =
    GetStatus
  | GetShutdown
  | PostSession
  | PostSessionUrl
  | GetSessionScreenshot
  | DeleteSessionWindow
  | DeleteSession
  | GetSessionTitle
  | CatchAll

definition serverCloseOnNull :: thrown where
  "serverCloseOnNull = ThrownOther ''TypeError: Cannot read properties of null (reading 'close')''"

text \<open>
  The handler of each route (lines 280--352), with \<^verbatim>\<open>params.sessionId\<close> and the parsed
  body. \<open>rng\<close> is the draw of the random source, should the handler ask for one.
\<close>

fun handler ::
  "backend \<Rightarrow> (nat \<Rightarrow> 8 word) \<Rightarrow> route \<Rightarrow> string \<Rightarrow> jsval
   \<Rightarrow> single_session_server \<Rightarrow> (thrown + response) \<times> single_session_server" where
  "handler be rng GetStatus sessionId body st =
     (let r = ready st
      in (Inr (Success (JObj [(''ready'', JBool r),
                              (''message'', JStr (if r then ''ok'' else ''busy''))])), st))"
| "handler be rng GetShutdown sessionId body st =
     (case shutdown be st of
        (Inl error, st1) \<Rightarrow> (Inl error, st1)
      | (Inr u, st1) \<Rightarrow>
          (case server st1 of
             None \<Rightarrow> (Inl serverCloseOnNull, st1)
           | Some l \<Rightarrow> (Inr (Success (JObj [])), st1\<lparr>server := Some Closed\<rparr>)))"
| "handler be rng PostSession sessionId body st =
     (case createSession rng st of
        (None, st1) \<Rightarrow> (Inr SessionNotCreatedError, st1)
      | (Some newId, st1) \<Rightarrow>
          if newId = [] then (Inr SessionNotCreatedError, st1)
          else (Inr (Success (JObj [(''sessionId'', JStr newId), (''capabilities'', JObj [])])),
                st1))"
| "handler be rng PostSessionUrl sessionId body st =
     (case body_url body of
        Inl error \<Rightarrow> (Inl error, st)
      | Inr url \<Rightarrow>
          if \<not> truthy url then (Inr InvalidArgumentError, st)
          else (case navigateTo be sessionId url st of
                  (Inl error, st1) \<Rightarrow> (Inl error, st1)
                | (Inr u, st1) \<Rightarrow> (Inr (Success (JObj [])), st1)))"
| "handler be rng GetSessionScreenshot sessionId body st =
     (let st1 = emit (ScreenshotHook sessionId) st
      in case screenshot be sessionId of
           Inl error \<Rightarrow> (Inl error, st1)
         | Inr png \<Rightarrow> (Inr (Success (JStr (toString_base64 png))), st1))"
| "handler be rng DeleteSessionWindow sessionId body st =
     (case closeSession be sessionId st of
        (Inl error, st1) \<Rightarrow> (Inl error, st1)
      | (Inr u, st1) \<Rightarrow> (Inr (Success (JObj [])), st1))"
| "handler be rng DeleteSession sessionId body st =
     (case closeSession be sessionId st of
        (Inl error, st1) \<Rightarrow> (Inl error, st1)
      | (Inr u, st1) \<Rightarrow> (Inr (Success (JObj [])), st1))"
| "handler be rng GetSessionTitle sessionId body st =
     (case getTitle sessionId st of
        (Inl error, st1) \<Rightarrow> (Inl error, st1)
      | (Inr title, st1) \<Rightarrow> (Inr (Success (JStr title)), st1))"
| "handler be rng CatchAll sessionId body st = (Inr UnknownCommandError, st)"

definition dispatch ::
  "backend \<Rightarrow> (nat \<Rightarrow> 8 word) \<Rightarrow> route \<Rightarrow> string \<Rightarrow> jsval
   \<Rightarrow> single_session_server \<Rightarrow> wire \<times> single_session_server" where
  "dispatch be rng r sessionId body = apiWrapper (handler be rng r sessionId body)"

section \<open>Runs of the lifecycle manager\<close>

text \<open>
  One operation of the lifecycle manager run to its end, or one firing of a timer; only
  the state after it is kept.
\<close>

datatype op =
    CreateSession "nat \<Rightarrow> 8 word"
  | NavigateTo string jsval
  | GetTitle string
  | CloseSession string
  | Shutdown
  | TimerFires nat

fun perform :: "backend \<Rightarrow> op \<Rightarrow> single_session_server \<Rightarrow> single_session_server" where
  "perform be (CreateSession rng) st = snd (createSession rng st)"
| "perform be (NavigateTo sessionId url) st = snd (navigateTo be sessionId url st)"
| "perform be (GetTitle sessionId) st = snd (getTitle sessionId st)"
| "perform be (CloseSession sessionId) st = snd (closeSession be sessionId st)"
| "perform be Shutdown st = snd (shutdown be st)"
| "perform be (TimerFires h) st = timerFires be h st"

definition run :: "backend \<Rightarrow> op list \<Rightarrow> single_session_server \<Rightarrow> single_session_server" where
  "run be ops st = fold (perform be) ops st"

text \<open>
  Requests that overlap. The event loop runs one piece of code at a time, up to the next
  \<^verbatim>\<open>await\<close>. Only \<^verbatim>\<open>createSession\<close> writes to the object after an \<^verbatim>\<open>await\<close>, so it is the
  one operation cut in two: \<open>CreateSessionCall\<close> is the call up to
  \<^verbatim>\<open>await randomBytes(...)\<close>, \<open>RandomBytesDone\<close> the rest of one suspended call. The
  number beside the state counts the calls suspended there.
\<close>

datatype segment =
    CreateSessionCall
  | RandomBytesDone "nat \<Rightarrow> 8 word"
  | Whole op

fun segment_step ::
  "backend \<Rightarrow> segment \<Rightarrow> single_session_server \<times> nat \<Rightarrow> single_session_server \<times> nat" where
  "segment_step be CreateSessionCall (st, suspended) =
     (if this_sessionId st \<noteq> [] then (snd (createSession_rejected st), suspended)
      else (st, Suc suspended))"
| "segment_step be (RandomBytesDone rng) (st, suspended) =
     (if suspended = 0 then (st, suspended)
      else (snd (createSession_resume rng st), suspended - 1))"
| "segment_step be (Whole op) (st, suspended) = (perform be op st, suspended)"

definition interleaved ::
  "backend \<Rightarrow> segment list \<Rightarrow> single_session_server \<Rightarrow> single_session_server" where
  "interleaved be segs st = fst (fold (segment_step be) segs (st, 0))"

section \<open>Invariants of the lifecycle manager\<close>

text \<open>The stored session id is empty exactly when the stored timer handle is \<^verbatim>\<open>null\<close>.\<close>

definition handle_invariant :: "single_session_server \<Rightarrow> bool" where
  "handle_invariant st = ((this_sessionId st = []) = (this_timeout st = None))"

text \<open>
  One session at most: besides \<open>handle_invariant\<close>, the stored handle is an armed timer
  of the table, and every armed timer of the table is the stored handle and was armed for
  the stored id.
\<close>

definition one_session :: "single_session_server \<Rightarrow> bool" where
  "one_session st =
     (handle_invariant st
      \<and> (\<forall>h \<in> set_option (this_timeout st).
            h < length (timers st) \<and> status (timers st ! h) = Armed)
      \<and> (\<forall>i \<in> {0..<length (timers st)}.
            status (timers st ! i) = Armed \<longrightarrow>
              this_timeout st = Some i \<and> armedFor (timers st ! i) = this_sessionId st))"

section \<open>Concrete servers and draws\<close>

definition example_flags :: flags where
  "example_flags = \<lparr>port = 4444, logPath = None, idleTimeoutSeconds = 120\<rparr>"

definition drawA :: "nat \<Rightarrow> 8 word" where
  "drawA i = of_nat (17 * i + 3)"

definition drawB :: "nat \<Rightarrow> 8 word" where
  "drawB i = of_nat (29 * i + 7)"

definition drawC :: "nat \<Rightarrow> 8 word" where
  "drawC i = of_nat (5 * i + 192)"

definition long_timeout_flags :: flags where
  "long_timeout_flags = \<lparr>port = 4444, logPath = None, idleTimeoutSeconds = 3000000\<rparr>"

definition long_timeout_idle :: single_session_server where
  "long_timeout_idle = listen (initial long_timeout_flags)"

definition example_idle :: single_session_server where
  "example_idle = listen (initial example_flags)"

definition example_active :: single_session_server where
  "example_active = snd (createSession drawA example_idle)"

text \<open>
  Two \<^verbatim>\<open>POST /session\<close> requests that overlap: both calls pass the check before either
  resumes. Then the second client closes its session and a third session is created.
\<close>

definition overlapping_creates :: "segment list" where
  "overlapping_creates =
     [CreateSessionCall, CreateSessionCall, RandomBytesDone drawA, RandomBytesDone drawB,
      Whole (CloseSession ''0724415e7b98b5d2ef0c294663809dba''), Whole (CreateSession drawC)]"

section \<open>Facts about the runtime primitives and the concrete servers\<close>

lemma length_randomBytes: "length (randomBytes n rng) = n"
  by (simp add: randomBytes_def)

lemma length_toString_hex: "length (toString_hex bytes) = 2 * length bytes"
  by (induction bytes) (simp_all add: toString_hex_def hexByte_def)

lemma length_hexAlphabet: "length hexAlphabet = 16"
  by (simp add: hexAlphabet_def)

lemma hexDigit_in: "hexDigit n \<in> set hexAlphabet"
  unfolding hexDigit_def by (rule nth_mem) (simp add: length_hexAlphabet)

lemma set_toString_hex: "set (toString_hex bytes) \<subseteq> set hexAlphabet"
proof -
  have "set (hexByte b) \<subseteq> set hexAlphabet" for b
    using hexDigit_in [of "unat b div 16"] hexDigit_in [of "unat b mod 16"]
    by (simp add: hexByte_def)
  then show ?thesis
    by (auto simp: toString_hex_def)
qed

lemma session_id_nonempty: "toString_hex (randomBytes NUM_RANDOM_ID_BYTES rng) \<noteq> []"
proof
  assume "toString_hex (randomBytes NUM_RANDOM_ID_BYTES rng) = []"
  then have "length (toString_hex (randomBytes NUM_RANDOM_ID_BYTES rng)) = 0" by simp
  then show False
    by (simp add: length_toString_hex length_randomBytes NUM_RANDOM_ID_BYTES_def)
qed

text \<open>The concrete idle servers, written out.\<close>

lemma example_idle_code [code]:
  "example_idle =
     \<lparr>flags = example_flags, server = Some Listening, this_sessionId = [],
      this_timeout = None, timers = [],
      effects = [Logged LInfo [LStr ''Listening on port 4444'']]\<rparr>"
  by (simp add: example_idle_def listen_def initial_def logTo_def example_flags_def
      numberToString_def)

lemma long_timeout_idle_code [code]:
  "long_timeout_idle =
     \<lparr>flags = long_timeout_flags, server = Some Listening, this_sessionId = [],
      this_timeout = None, timers = [],
      effects = [Logged LInfo [LStr ''Listening on port 4444'']]\<rparr>"
  by (simp add: long_timeout_idle_def listen_def initial_def logTo_def long_timeout_flags_def
      numberToString_def)

lemma example_idle_simps:
  "this_sessionId example_idle = []" "this_timeout example_idle = None"
  "timers example_idle = []" "server example_idle = Some Listening"
  by (simp_all add: example_idle_def listen_def initial_def logTo_def)

lemma drawA_id: "toString_hex (randomBytes NUM_RANDOM_ID_BYTES drawA) = ''031425364758697a8b9cadbecfe0f102''"
  by code_simp

lemma example_active_simps:
  "this_sessionId example_active = ''031425364758697a8b9cadbecfe0f102''"
  "this_timeout example_active = Some 0"
  "timers example_active =
     [\<lparr>status = Armed, delay = 120000, armedFor = ''031425364758697a8b9cadbecfe0f102''\<rparr>]"
  "server example_active = Some Listening"
  by (simp_all add: example_active_def createSession_def createSession_resume_def
      example_idle_simps setTimeout_def logTo_def Let_def drawA_id MILLISECONDS_PER_SECOND_def)
     (simp_all add: example_idle_def listen_def initial_def logTo_def example_flags_def
        timerDelay_def TIMEOUT_MAX_def)

section \<open>The invariant is kept by every operation\<close>

lemma one_sessionI:
  assumes "(this_sessionId st = []) = (this_timeout st = None)"
    and "\<And>h. this_timeout st = Some h \<Longrightarrow> h < length (timers st) \<and> status (timers st ! h) = Armed"
    and "\<And>i. i < length (timers st) \<Longrightarrow> status (timers st ! i) = Armed \<Longrightarrow>
           this_timeout st = Some i \<and> armedFor (timers st ! i) = this_sessionId st"
  shows "one_session st"
  unfolding one_session_def handle_invariant_def
proof (intro conjI ballI impI)
  show "(this_sessionId st = []) = (this_timeout st = None)" by (rule assms(1))
next
  fix h assume "h \<in> set_option (this_timeout st)"
  then have "this_timeout st = Some h" by (cases "this_timeout st") simp_all
  then show "h < length (timers st)" "status (timers st ! h) = Armed"
    using assms(2) by blast+
next
  fix i assume "i \<in> {0..<length (timers st)}" "status (timers st ! i) = Armed"
  then have "i < length (timers st)" by simp
  with \<open>status (timers st ! i) = Armed\<close>
  show "this_timeout st = Some i" "armedFor (timers st ! i) = this_sessionId st"
    using assms(3) by blast+
qed

lemma one_session_handle: "one_session st \<Longrightarrow> (this_sessionId st = []) = (this_timeout st = None)"
  unfolding one_session_def handle_invariant_def by (elim conjE)

lemma one_session_stored:
  assumes "one_session st" "this_timeout st = Some h"
  shows "h < length (timers st) \<and> status (timers st ! h) = Armed"
proof -
  have "\<forall>h \<in> set_option (this_timeout st). h < length (timers st) \<and> status (timers st ! h) = Armed"
    using assms(1) unfolding one_session_def by (elim conjE)
  moreover have "h \<in> set_option (this_timeout st)" by (simp add: assms(2))
  ultimately show ?thesis by (rule bspec)
qed

lemma one_session_armed:
  assumes "one_session st" "i < length (timers st)" "status (timers st ! i) = Armed"
  shows "this_timeout st = Some i \<and> armedFor (timers st ! i) = this_sessionId st"
proof -
  have all: "\<forall>i \<in> {0..<length (timers st)}. status (timers st ! i) = Armed \<longrightarrow>
      this_timeout st = Some i \<and> armedFor (timers st ! i) = this_sessionId st"
    using assms(1) unfolding one_session_def by (elim conjE)
  have "i \<in> {0..<length (timers st)}" by (simp add: assms(2))
  with all assms(3) show ?thesis by blast
qed

lemma handle_invariant_of_one_session: "one_session st \<Longrightarrow> handle_invariant st"
  unfolding one_session_def by (elim conjE)


lemma one_session_fields:
  assumes "one_session st"
    and "this_sessionId st' = this_sessionId st"
    and "this_timeout st' = this_timeout st"
    and "timers st' = timers st"
  shows "one_session st'"
proof (rule one_sessionI)
  show "(this_sessionId st' = []) = (this_timeout st' = None)"
    using one_session_handle [OF assms(1)] assms(2,3) by simp
next
  fix h assume "this_timeout st' = Some h"
  then have "this_timeout st = Some h" using assms(3) by simp
  from one_session_stored [OF assms(1) this]
  show "h < length (timers st') \<and> status (timers st' ! h) = Armed"
    using assms(4) by simp
next
  fix i assume "i < length (timers st')" "status (timers st' ! i) = Armed"
  then have "i < length (timers st)" "status (timers st ! i) = Armed"
    using assms(4) by simp_all
  from one_session_armed [OF assms(1) this]
  show "this_timeout st' = Some i \<and> armedFor (timers st' ! i) = this_sessionId st'"
    using assms(2,3,4) by simp
qed

lemma one_session_initial: "one_session (initial fl)"
  by (rule one_sessionI) (simp_all add: initial_def)

lemma listen_fields:
  "this_sessionId (listen st) = this_sessionId st"
  "this_timeout (listen st) = this_timeout st"
  "timers (listen st) = timers st"
  by (simp_all add: listen_def logTo_def)

lemma one_session_listen: "one_session st \<Longrightarrow> one_session (listen st)"
  by (rule one_session_fields) (simp_all add: listen_fields)

lemma createSession_rejected_fields:
  "this_sessionId (snd (createSession_rejected st)) = this_sessionId st"
  "this_timeout (snd (createSession_rejected st)) = this_timeout st"
  "timers (snd (createSession_rejected st)) = timers st"
  by (simp_all add: createSession_rejected_def logTo_def)

lemma createSession_resume_fields:
  "this_sessionId (snd (createSession_resume rng st)) =
     toString_hex (randomBytes NUM_RANDOM_ID_BYTES rng)"
  "this_timeout (snd (createSession_resume rng st)) = Some (length (timers st))"
  "timers (snd (createSession_resume rng st)) =
     timers st @ [\<lparr>status = Armed,
                   delay = timerDelay (idleTimeoutSeconds (flags st) * MILLISECONDS_PER_SECOND),
                   armedFor = toString_hex (randomBytes NUM_RANDOM_ID_BYTES rng)\<rparr>]"
  "fst (createSession_resume rng st) = Some (toString_hex (randomBytes NUM_RANDOM_ID_BYTES rng))"
  by (simp_all add: createSession_resume_def setTimeout_def logTo_def Let_def)

lemma one_session_createSession_resume:
  assumes "one_session st" "this_sessionId st = []"
  shows "one_session (snd (createSession_resume rng st))"
proof (rule one_sessionI)
  show "(this_sessionId (snd (createSession_resume rng st)) = []) =
        (this_timeout (snd (createSession_resume rng st)) = None)"
    by (simp add: createSession_resume_fields session_id_nonempty)
next
  fix h assume "this_timeout (snd (createSession_resume rng st)) = Some h"
  then have "h = length (timers st)" by (simp add: createSession_resume_fields)
  then show "h < length (timers (snd (createSession_resume rng st)))
      \<and> status (timers (snd (createSession_resume rng st)) ! h) = Armed"
    by (simp add: createSession_resume_fields)
next
  fix i
  assume i: "i < length (timers (snd (createSession_resume rng st)))"
    and armed: "status (timers (snd (createSession_resume rng st)) ! i) = Armed"
  have none: "this_timeout st = None"
    using one_session_handle [OF assms(1)] assms(2) by simp
  have "i = length (timers st)"
  proof (rule ccontr)
    assume "i \<noteq> length (timers st)"
    with i have old: "i < length (timers st)" by (simp add: createSession_resume_fields)
    with armed have "status (timers st ! i) = Armed"
      by (simp add: createSession_resume_fields nth_append)
    from one_session_armed [OF assms(1) old this] none show False by simp
  qed
  then show "this_timeout (snd (createSession_resume rng st)) = Some i
      \<and> armedFor (timers (snd (createSession_resume rng st)) ! i) =
          this_sessionId (snd (createSession_resume rng st))"
    by (simp add: createSession_resume_fields)
qed

lemma one_session_createSession: "one_session st \<Longrightarrow> one_session (snd (createSession rng st))"
  unfolding createSession_def
  by (simp add: one_session_createSession_resume
      one_session_fields [OF _ createSession_rejected_fields])


lemma emit_fields:
  "this_sessionId (emit e st) = this_sessionId st"
  "this_timeout (emit e st) = this_timeout st"
  "timers (emit e st) = timers st"
  "server (emit e st) = server st"
  "effects (emit e st) = effects st @ [e]"
  by (simp_all add: emit_def)

lemma logTo_fields:
  "this_sessionId (logTo l args st) = this_sessionId st"
  "this_timeout (logTo l args st) = this_timeout st"
  "timers (logTo l args st) = timers st"
  "server (logTo l args st) = server st"
  "effects (logTo l args st) = effects st @ [Logged l args]"
  by (simp_all add: logTo_def)

text \<open>On an armed timer \<open>refresh\<close> only leaves its mark in the effects.\<close>

lemma refresh_armed:
  assumes "h < length (timers st)" "status (timers st ! h) = Armed"
  shows "refresh h st = emit (Refreshed h) st"
  using assms by (simp add: refresh_def emit_def)

lemma one_session_refresh:
  assumes "one_session st" "this_timeout st = Some h"
  shows "one_session (refresh h st)"
proof -
  from one_session_stored [OF assms]
  have "refresh h st = emit (Refreshed h) st" by (simp add: refresh_armed)
  then show ?thesis
    using one_session_fields [OF assms(1), of "emit (Refreshed h) st"]
    by (simp add: emit_fields)
qed

lemma one_session_emit: "one_session st \<Longrightarrow> one_session (emit e st)"
  by (rule one_session_fields) (simp_all add: emit_fields)

lemma one_session_logTo: "one_session st \<Longrightarrow> one_session (logTo l args st)"
  by (rule one_session_fields) (simp_all add: logTo_fields)

lemma one_session_navigateTo:
  assumes "one_session st"
  shows "one_session (snd (navigateTo be sessionId url st))"
proof (cases "this_sessionId st = [] \<or> sessionId \<noteq> this_sessionId st")
  case True
  then show ?thesis using assms by (simp add: navigateTo_def)
next
  case False
  show ?thesis
  proof (cases "this_timeout st")
    case None
    with False assms show ?thesis by (simp add: navigateTo_def)
  next
    case (Some h)
    have "one_session (emit (NavigateHook url) (refresh h st))"
      by (rule one_session_emit) (rule one_session_refresh [OF assms Some])
    with False Some show ?thesis by (simp add: navigateTo_def Let_def)
  qed
qed

lemma one_session_getTitle:
  assumes "one_session st"
  shows "one_session (snd (getTitle sessionId st))"
proof (cases "this_sessionId st = [] \<or> sessionId \<noteq> this_sessionId st")
  case True
  then show ?thesis using assms by (simp add: getTitle_def)
next
  case False
  show ?thesis
  proof (cases "this_timeout st")
    case None
    with False assms show ?thesis by (simp add: getTitle_def)
  next
    case (Some h)
    with False one_session_refresh [OF assms Some] show ?thesis
      by (simp add: getTitle_def)
  qed
qed

text \<open>What a close that goes through leaves behind.\<close>

lemma closeSession_sync_noop:
  "this_sessionId st = [] \<or> sessionId \<noteq> this_sessionId st \<Longrightarrow>
     closeSession_sync sessionId st = (False, st)"
  by (simp add: closeSession_sync_def)

lemma closeSession_sync_match:
  assumes "this_sessionId st \<noteq> []" "sessionId = this_sessionId st"
  shows "fst (closeSession_sync sessionId st) = True"
    and "this_sessionId (snd (closeSession_sync sessionId st)) = []"
    and "this_timeout (snd (closeSession_sync sessionId st)) = None"
    and "timers (snd (closeSession_sync sessionId st)) = timers (clearTimeout (this_timeout st) st)"
    and "server (snd (closeSession_sync sessionId st)) = server st"
    and "effects (snd (closeSession_sync sessionId st)) =
           effects st @ [Logged LDebug [LStr ''Session ID'', LStr (this_sessionId st), LStr ''released''],
                         CloseHook]"
  using assms
  by (simp_all add: closeSession_sync_def Let_def emit_def logTo_def clearTimeout_def
      split: option.split)

lemma clearTimeout_timers:
  "timers (clearTimeout (Some h) st) =
     (if h < length (timers st) then (timers st)[h := (timers st ! h)\<lparr>status := Cleared\<rparr>]
      else timers st)"
  "timers (clearTimeout None st) = timers st"
  by (simp_all add: clearTimeout_def)

lemma one_session_closeSession_sync:
  assumes "one_session st"
  shows "one_session (snd (closeSession_sync sessionId st))"
proof (cases "this_sessionId st = [] \<or> sessionId \<noteq> this_sessionId st")
  case True
  then show ?thesis using assms by (simp add: closeSession_sync_noop)
next
  case False
  then have m: "this_sessionId st \<noteq> []" "sessionId = this_sessionId st" by simp_all
  from one_session_handle [OF assms] m(1) obtain h where h: "this_timeout st = Some h"
    by (cases "this_timeout st") simp_all
  from one_session_stored [OF assms h] have hlt: "h < length (timers st)" by simp
  let ?st' = "snd (closeSession_sync sessionId st)"
  have tm: "timers ?st' = (timers st)[h := (timers st ! h)\<lparr>status := Cleared\<rparr>]"
    using closeSession_sync_match(4) [OF m] h hlt by (simp add: clearTimeout_timers)
  show ?thesis
  proof (rule one_sessionI)
    show "(this_sessionId ?st' = []) = (this_timeout ?st' = None)"
      by (simp add: closeSession_sync_match(2,3) [OF m])
  next
    fix k assume "this_timeout ?st' = Some k"
    then show "k < length (timers ?st') \<and> status (timers ?st' ! k) = Armed"
      by (simp add: closeSession_sync_match(3) [OF m])
  next
    fix i assume i: "i < length (timers ?st')" and armed: "status (timers ?st' ! i) = Armed"
    from i have ilt: "i < length (timers st)" by (simp add: tm)
    have "i \<noteq> h"
    proof
      assume "i = h"
      with armed hlt show False by (simp add: tm)
    qed
    with armed have "status (timers st ! i) = Armed" by (simp add: tm)
    from one_session_armed [OF assms ilt this] h \<open>i \<noteq> h\<close>
    show "this_timeout ?st' = Some i \<and> armedFor (timers ?st' ! i) = this_sessionId ?st'"
      by simp
  qed
qed

lemma closeSession_settle_fields:
  "fst (closeSession_settle be called st) = Inr ()"
  "this_sessionId (snd (closeSession_settle be called st)) = this_sessionId st"
  "this_timeout (snd (closeSession_settle be called st)) = this_timeout st"
  "timers (snd (closeSession_settle be called st)) = timers st"
  "server (snd (closeSession_settle be called st)) = server st"
  "effects (snd (closeSession_settle be called st)) =
     effects st @ (if called then (case closeSingleSession be of
                                     Inr u \<Rightarrow> []
                                   | Inl error \<Rightarrow> [Logged LError [LThrown error]])
                   else [])"
  by (simp_all add: closeSession_settle_def logTo_def split: sum.split)

lemma one_session_settle:
  "one_session st \<Longrightarrow> one_session (snd (closeSession_settle be called st))"
  by (rule one_session_fields) (simp_all add: closeSession_settle_fields)

lemma closeSession_unfold:
  "closeSession be sessionId st =
     closeSession_settle be (fst (closeSession_sync sessionId st))
       (snd (closeSession_sync sessionId st))"
  by (simp add: closeSession_def split: prod.split)

lemma one_session_closeSession:
  "one_session st \<Longrightarrow> one_session (snd (closeSession be sessionId st))"
  by (simp add: closeSession_unfold one_session_settle one_session_closeSession_sync)

lemma shutdown_unfold:
  "snd (shutdown be st) =
     (if this_sessionId st \<noteq> []
      then snd (closeSession_settle be (fst (closeSession_sync (this_sessionId st) st))
             (emit ShutdownHook (snd (closeSession_sync (this_sessionId st) st))))
      else snd (closeSession_settle be False (emit ShutdownHook st)))"
  "fst (shutdown be st) = shutdownSingleSession be"
  by (simp_all add: shutdown_def Let_def split: prod.split)

lemma one_session_shutdown: "one_session st \<Longrightarrow> one_session (snd (shutdown be st))"
  by (simp add: shutdown_unfold one_session_settle one_session_emit
      one_session_closeSession_sync)

lemma one_session_timerFires:
  assumes "one_session st"
  shows "one_session (timerFires be h st)"
proof (cases "h < length (timers st) \<and> status (timers st ! h) = Armed")
  case False
  then show ?thesis using assms by (auto simp: timerFires_def)
next
  case True
  then have hlt: "h < length (timers st)" and armed: "status (timers st ! h) = Armed"
    by simp_all
  from one_session_armed [OF assms hlt armed] have stored: "this_timeout st = Some h" by simp
  with one_session_handle [OF assms] have active: "this_sessionId st \<noteq> []" by simp
  let ?st2 = "logTo LInfo [LStr ''Activity timeout.  Releasing session.'']
                (st\<lparr>timers := (timers st)[h := (timers st ! h)\<lparr>status := Fired\<rparr>]\<rparr>)"
  let ?st3 = "snd (closeSession_sync (this_sessionId ?st2) ?st2)"
  have fires: "timerFires be h st = snd (closeSession be (this_sessionId ?st2) ?st2)"
    using True by (simp add: timerFires_def Let_def)
  have m: "this_sessionId ?st2 \<noteq> []" "this_sessionId ?st2 = this_sessionId ?st2"
    using active by (simp_all add: logTo_fields)
  have tm: "timers ?st3 = (timers st)[h := (timers st ! h)\<lparr>status := Cleared\<rparr>]"
    using closeSession_sync_match(4) [OF m] stored hlt
    by (simp add: clearTimeout_timers logTo_fields)
  have "one_session ?st3"
  proof (rule one_sessionI)
    show "(this_sessionId ?st3 = []) = (this_timeout ?st3 = None)"
      using closeSession_sync_match(2,3) [OF m] by simp
  next
    fix k assume "this_timeout ?st3 = Some k"
    then show "k < length (timers ?st3) \<and> status (timers ?st3 ! k) = Armed"
      using closeSession_sync_match(3) [OF m] by simp
  next
    fix i assume i: "i < length (timers ?st3)" and a: "status (timers ?st3 ! i) = Armed"
    from i have ilt: "i < length (timers st)" by (simp add: tm)
    have "i \<noteq> h"
    proof
      assume "i = h"
      with a hlt show False by (simp add: tm)
    qed
    with a have "status (timers st ! i) = Armed" by (simp add: tm)
    from one_session_armed [OF assms ilt this] stored \<open>i \<noteq> h\<close>
    show "this_timeout ?st3 = Some i \<and> armedFor (timers ?st3 ! i) = this_sessionId ?st3"
      by simp
  qed
  then show ?thesis
    unfolding fires closeSession_unfold by (rule one_session_settle)
qed

lemma one_session_perform: "one_session st \<Longrightarrow> one_session (perform be op st)"
  by (cases op)
     (simp_all add: one_session_createSession one_session_navigateTo one_session_getTitle
        one_session_closeSession one_session_shutdown one_session_timerFires)

lemma one_session_run: "one_session st \<Longrightarrow> one_session (run be ops st)"
  unfolding run_def by (induction ops arbitrary: st) (simp_all add: one_session_perform)

text \<open>Only createSession makes an idle server active; an active id is kept or cleared.\<close>

lemma perform_activates:
  assumes "this_sessionId st = []" "this_sessionId (perform be op st) \<noteq> []"
  shows "\<exists>rng. op = CreateSession rng
           \<and> this_sessionId (perform be op st) = toString_hex (randomBytes NUM_RANDOM_ID_BYTES rng)"
proof (cases op)
  case (CreateSession rng)
  with assms(1) show ?thesis
    by (simp add: createSession_def createSession_resume_fields)
next
  case (NavigateTo sessionId url)
  with assms show ?thesis by (simp add: navigateTo_def)
next
  case (GetTitle sessionId)
  with assms show ?thesis by (simp add: getTitle_def)
next
  case (CloseSession sessionId)
  with assms show ?thesis
    by (simp add: closeSession_unfold closeSession_settle_fields closeSession_sync_noop)
next
  case Shutdown
  with assms show ?thesis
    by (simp add: shutdown_unfold closeSession_settle_fields emit_fields)
next
  case (TimerFires h)
  with assms show ?thesis
    by (simp add: timerFires_def Let_def closeSession_unfold closeSession_settle_fields
        closeSession_sync_noop logTo_fields split: if_splits)
qed

lemma refresh_fields:
  "this_sessionId (refresh h st) = this_sessionId st"
  "this_timeout (refresh h st) = this_timeout st"
  "server (refresh h st) = server st"
  by (simp_all add: refresh_def emit_def Let_def)

lemma closeSession_sync_id:
  "this_sessionId (snd (closeSession_sync sessionId st)) = this_sessionId st
   \<or> this_sessionId (snd (closeSession_sync sessionId st)) = []"
  by (cases "this_sessionId st = [] \<or> sessionId \<noteq> this_sessionId st")
     (simp_all add: closeSession_sync_noop closeSession_sync_match)

lemma perform_keeps_or_clears:
  "this_sessionId st \<noteq> [] \<Longrightarrow>
     this_sessionId (perform be op st) = this_sessionId st \<or> this_sessionId (perform be op st) = []"
proof (cases op)
  case (CreateSession rng)
  assume "this_sessionId st \<noteq> []"
  with CreateSession show ?thesis
    by (simp add: createSession_def createSession_rejected_fields)
next
  case (NavigateTo sessionId url)
  then show ?thesis
    by (simp add: navigateTo_def Let_def emit_fields refresh_fields split: option.split)
next
  case (GetTitle sessionId)
  then show ?thesis
    by (simp add: getTitle_def refresh_fields split: option.split)
next
  case (CloseSession sessionId)
  with closeSession_sync_id [of sessionId st] show ?thesis
    by (simp add: closeSession_unfold closeSession_settle_fields)
next
  case Shutdown
  assume "this_sessionId st \<noteq> []"
  with Shutdown show ?thesis
    by (simp add: shutdown_unfold closeSession_settle_fields emit_fields closeSession_sync_match)
next
  case (TimerFires h)
  show ?thesis
  proof (cases "h < length (timers st) \<and> status (timers st ! h) = Armed")
    case False
    with TimerFires show ?thesis by (auto simp: timerFires_def)
  next
    case True
    let ?st2 = "logTo LInfo [LStr ''Activity timeout.  Releasing session.'']
                (st\<lparr>timers := (timers st)[h := (timers st ! h)\<lparr>status := Fired\<rparr>]\<rparr>)"
    have "timerFires be h st = snd (closeSession be (this_sessionId ?st2) ?st2)"
      using True by (simp add: timerFires_def Let_def)
    with closeSession_sync_id [of "this_sessionId ?st2" ?st2] TimerFires show ?thesis
      by (simp add: closeSession_unfold closeSession_settle_fields logTo_fields)
  qed
qed

lemma refresh_effects: "effects (refresh h st) = effects st @ [Refreshed h]"
  by (simp add: refresh_def emit_def Let_def)

lemma handle_invariant_perform:
  assumes "handle_invariant st"
  shows "handle_invariant (perform be op st)"
proof -
  have keeps: "handle_invariant st'"
    if "this_sessionId st' = this_sessionId st" "this_timeout st' = this_timeout st" for st'
    using assms that by (simp add: handle_invariant_def)
  have closes: "handle_invariant (snd (closeSession_sync sessionId s))"
    if "handle_invariant s" for sessionId s
    using that
    by (cases "this_sessionId s = [] \<or> sessionId \<noteq> this_sessionId s")
       (simp_all add: closeSession_sync_noop closeSession_sync_match handle_invariant_def)
  have settles: "handle_invariant (snd (closeSession_settle be called s))"
    if "handle_invariant s" for called s
    using that by (simp add: handle_invariant_def closeSession_settle_fields)
  have emits: "handle_invariant (emit e s)" if "handle_invariant s" for e s
    using that by (simp add: handle_invariant_def emit_fields)
  show ?thesis
  proof (cases op)
    case (CreateSession rng)
    then show ?thesis
      using assms
      by (simp add: createSession_def handle_invariant_def createSession_rejected_fields
          createSession_resume_fields session_id_nonempty)
  next
    case (NavigateTo sessionId url)
    then show ?thesis
      using assms
      by (simp add: navigateTo_def Let_def handle_invariant_def emit_fields refresh_fields
          split: option.split)
  next
    case (GetTitle sessionId)
    then show ?thesis
      using assms
      by (simp add: getTitle_def handle_invariant_def refresh_fields split: option.split)
  next
    case (CloseSession sessionId)
    then show ?thesis
      by (simp add: closeSession_unfold settles closes assms)
  next
    case Shutdown
    then show ?thesis
      by (simp add: shutdown_unfold settles emits closes assms)
  next
    case (TimerFires h)
    have "handle_invariant (logTo LInfo args (st\<lparr>timers := ts\<rparr>))" for args ts
      using assms by (simp add: handle_invariant_def logTo_fields)
    with TimerFires assms show ?thesis
      by (simp add: timerFires_def Let_def closeSession_unfold settles closes)
  qed
qed

lemma handle_invariant_run: "handle_invariant st \<Longrightarrow> handle_invariant (run be ops st)"
  unfolding run_def by (induction ops arbitrary: st) (simp_all add: handle_invariant_perform)

lemma handle_invariant_segment:
  "handle_invariant st \<Longrightarrow> handle_invariant (fst (segment_step be seg (st, suspended)))"
  by (cases seg)
     (simp_all add: handle_invariant_perform,
      simp_all add: handle_invariant_def createSession_rejected_fields
        createSession_resume_fields session_id_nonempty)

lemma checked_calls:
  assumes "handle_invariant st" "this_sessionId st \<noteq> []" "sessionId = this_sessionId st"
  shows "\<exists>h. this_timeout st = Some h
           \<and> navigateTo be sessionId url st =
               (navigateToSingleSession be url, emit (NavigateHook url) (refresh h st))
           \<and> getTitle sessionId st = (Inr ''Title of the page'', refresh h st)"
proof -
  from assms(1,2) obtain h where "this_timeout st = Some h"
    by (cases "this_timeout st") (simp_all add: handle_invariant_def)
  with assms(2,3) show ?thesis
    by (simp add: navigateTo_def getTitle_def Let_def)
qed

lemma shutdown_server: "server (snd (shutdown be st)) = server st"
proof (cases "this_sessionId st = []")
  case True
  then show ?thesis
    by (simp add: shutdown_unfold closeSession_settle_fields emit_fields)
next
  case False
  then have m: "this_sessionId st \<noteq> []" "this_sessionId st = this_sessionId st" by simp_all
  from False show ?thesis
    by (simp add: shutdown_unfold closeSession_settle_fields emit_fields
        closeSession_sync_match(5) [OF m])
qed

lemma shutdown_effects:
  "effects (snd (shutdown be st)) =
      effects st
      @ (if this_sessionId st \<noteq> []
         then [Logged LDebug [LStr ''Session ID'', LStr (this_sessionId st), LStr ''released''],
               CloseHook]
         else [])
      @ [ShutdownHook]
      @ (if this_sessionId st \<noteq> []
         then (case closeSingleSession be of
                 Inr u \<Rightarrow> []
               | Inl error \<Rightarrow> [Logged LError [LThrown error]])
         else [])"
proof (cases "this_sessionId st = []")
  case True
  then show ?thesis
    by (simp add: shutdown_unfold closeSession_settle_fields emit_fields)
next
  case False
  then have m: "this_sessionId st \<noteq> []" "this_sessionId st = this_sessionId st" by simp_all
  from False show ?thesis
    by (simp add: shutdown_unfold closeSession_settle_fields emit_fields
        closeSession_sync_match(1,6) [OF m])
qed

lemma shutdown_session:
  "this_sessionId (snd (shutdown be st)) = []"
  "this_sessionId st \<noteq> [] \<Longrightarrow> this_timeout (snd (shutdown be st)) = None"
  "this_sessionId st \<noteq> [] \<Longrightarrow>
     timers (snd (shutdown be st)) = timers (clearTimeout (this_timeout st) st)"
proof -
  show "this_sessionId (snd (shutdown be st)) = []"
  proof (cases "this_sessionId st = []")
    case True
    then show ?thesis
      by (simp add: shutdown_unfold closeSession_settle_fields emit_fields)
  next
    case False
    then have m: "this_sessionId st \<noteq> []" "this_sessionId st = this_sessionId st" by simp_all
    from False show ?thesis
      by (simp add: shutdown_unfold closeSession_settle_fields emit_fields
          closeSession_sync_match(2) [OF m])
  qed
next
  assume "this_sessionId st \<noteq> []"
  then have m: "this_sessionId st \<noteq> []" "this_sessionId st = this_sessionId st" by simp_all
  from m(1) show "this_timeout (snd (shutdown be st)) = None"
    by (simp add: shutdown_unfold closeSession_settle_fields emit_fields
        closeSession_sync_match(3) [OF m])
  from m(1) show "timers (snd (shutdown be st)) = timers (clearTimeout (this_timeout st) st)"
    by (simp add: shutdown_unfold closeSession_settle_fields emit_fields
        closeSession_sync_match(4) [OF m])
qed

lemma handler_GetShutdown:
  assumes "shutdownSingleSession be = Inr ()" "server st \<noteq> None"
  shows "handler be rng GetShutdown sessionId body st =
           (Inr (Success (JObj [])), (snd (shutdown be st))\<lparr>server := Some Closed\<rparr>)"
proof -
  have pair: "shutdown be st = (Inr (), snd (shutdown be st))"
    by (simp add: prod_eq_iff shutdown_unfold(2) assms(1))
  from assms(2) obtain l where "server (snd (shutdown be st)) = Some l"
    by (auto simp: shutdown_server)
  then show ?thesis
    by (subst handler.simps, subst pair) simp
qed

section \<open>What holds of an idle createSession, and of operations that do not overlap\<close>

lemma nth_toString_hex:
  "i < length bytes \<Longrightarrow>
     toString_hex bytes ! (2 * i) = hexDigit (unat (bytes ! i) div 16)
     \<and> toString_hex bytes ! (2 * i + 1) = hexDigit (unat (bytes ! i) mod 16)"
proof (induction bytes arbitrary: i)
  case Nil
  then show ?case by simp
next
  case (Cons b bytes)
  have unfold: "toString_hex (b # bytes) =
      hexDigit (unat b div 16) # hexDigit (unat b mod 16) # toString_hex bytes"
    by (simp add: toString_hex_def hexByte_def)
  show ?case
  proof (cases i)
    case 0
    then show ?thesis by (simp add: unfold)
  next
    case (Suc j)
    with Cons.prems have "j < length bytes" by simp
    from Cons.IH [OF this] Suc show ?thesis by (simp add: unfold)
  qed
qed

text \<open>
  Called with no active session, \<open>createSession\<close> returns the hex encoding of the 16
  bytes of the draw, byte \<open>i\<close> giving characters \<open>2 i\<close> and \<open>2 i + 1\<close>: 32 hex digits.
  It stores that id, sets one timer and stores its handle. The timer is armed for
  \<open>idleTimeoutSeconds\<close> times 1000 milliseconds when that lies between 1 and 2147483647.
\<close>

theorem createSession_idle_result:
  assumes "this_sessionId st = []"
  shows "fst (createSession rng st) = Some (toString_hex (map rng [0..<16]))
       \<and> length (toString_hex (map rng [0..<16])) = 32
       \<and> set (toString_hex (map rng [0..<16])) \<subseteq> set hexAlphabet
       \<and> (\<forall>i < 16.
             toString_hex (map rng [0..<16]) ! (2 * i) = hexAlphabet ! (unat (rng i) div 16)
             \<and> toString_hex (map rng [0..<16]) ! (2 * i + 1) = hexAlphabet ! (unat (rng i) mod 16))
       \<and> this_sessionId (snd (createSession rng st)) = toString_hex (map rng [0..<16])
       \<and> this_timeout (snd (createSession rng st)) = Some (length (timers st))
       \<and> timers (snd (createSession rng st)) =
           timers st @ [\<lparr>status = Armed,
                         delay = timerDelay (idleTimeoutSeconds (flags st) * 1000),
                         armedFor = toString_hex (map rng [0..<16])\<rparr>]
       \<and> (1 \<le> idleTimeoutSeconds (flags st) * 1000
            \<and> idleTimeoutSeconds (flags st) * 1000 \<le> 2147483647 \<longrightarrow>
            timerDelay (idleTimeoutSeconds (flags st) * 1000) =
              idleTimeoutSeconds (flags st) * 1000)"
proof -
  have bytes: "randomBytes NUM_RANDOM_ID_BYTES rng = map rng [0..<16]"
    by (simp add: randomBytes_def NUM_RANDOM_ID_BYTES_def)
  have digits: "toString_hex (map rng [0..<16]) ! (2 * i) = hexAlphabet ! (unat (rng i) div 16)
      \<and> toString_hex (map rng [0..<16]) ! (2 * i + 1) = hexAlphabet ! (unat (rng i) mod 16)"
    if "i < 16" for i
  proof -
    have "unat (rng i) < 2 ^ LENGTH(8)" by (rule unsigned_less)
    then have high: "unat (rng i) div 16 mod 16 = unat (rng i) div 16" by simp
    from that have "i < length (map rng [0..<16])" by simp
    from nth_toString_hex [OF this] that high show ?thesis
      by (simp add: hexDigit_def)
  qed
  have result: "createSession rng st = createSession_resume rng st"
    using assms by (simp add: createSession_def)
  have len: "length (toString_hex (map rng [0..<16])) = 32"
    by (simp add: length_toString_hex)
  show ?thesis
    using digits len set_toString_hex [of "map rng [0..<16]"]
    by (simp add: result createSession_resume_fields bytes MILLISECONDS_PER_SECOND_def
        timerDelay_def TIMEOUT_MAX_def)
qed

theorem createSession_idle_result_example:
  "this_sessionId example_idle = []
   \<and> map drawA [0..<16] = [3, 20, 37, 54, 71, 88, 105, 122, 139, 156, 173, 190, 207, 224, 241, 2]
   \<and> fst (createSession drawA example_idle) = Some ''031425364758697a8b9cadbecfe0f102''
   \<and> this_timeout (snd (createSession drawA example_idle)) = Some 0
   \<and> timers (snd (createSession drawA example_idle)) =
       [\<lparr>status = Armed, delay = 120000, armedFor = ''031425364758697a8b9cadbecfe0f102''\<rparr>]"
proof -
  have idle: "this_sessionId example_idle = []"
    by (simp add: example_idle_simps)
  have fl: "idleTimeoutSeconds (flags example_idle) = 120"
    by (simp add: example_idle_def listen_def initial_def logTo_def example_flags_def)
  have draw: "map drawA [0..<16] = [3, 20, 37, 54, 71, 88, 105, 122, 139, 156, 173, 190, 207, 224, 241, 2]"
    by code_simp
  have hex: "toString_hex (map drawA [0..<16]) = ''031425364758697a8b9cadbecfe0f102''"
    by code_simp
  show ?thesis
    using createSession_idle_result [OF idle, of drawA] idle fl draw hex
    by (simp add: example_idle_simps timerDelay_def TIMEOUT_MAX_def)
qed

text \<open>
  Take any operations of the lifecycle manager (and firings of timers), each run to its
  end before the next one starts, from the initial idle server (before or after
  \<^verbatim>\<open>listen()\<close>), and then one more. If that one takes the server from idle to active, it
  is a \<open>createSession\<close> and the stored id is the one id it generated. If the server was
  active, the stored id afterwards is the same id or none. In the state reached, every
  armed timer is the stored handle and was armed for the stored id, so there is at most
  one.
\<close>

theorem at_most_one_session:
  assumes "start = initial fl \<or> start = listen (initial fl)"
    and "st = run be ops start" and "st' = perform be op st"
  shows "(this_sessionId st = [] \<and> this_sessionId st' \<noteq> [] \<longrightarrow>
           (\<exists>rng. op = CreateSession rng
              \<and> this_sessionId st' = toString_hex (randomBytes NUM_RANDOM_ID_BYTES rng)))
       \<and> (this_sessionId st \<noteq> [] \<longrightarrow>
           this_sessionId st' = this_sessionId st \<or> this_sessionId st' = [])
       \<and> (\<forall>i \<in> {0..<length (timers st)}. status (timers st ! i) = Armed \<longrightarrow>
             this_sessionId st \<noteq> [] \<and> this_timeout st = Some i
             \<and> armedFor (timers st ! i) = this_sessionId st)
       \<and> (\<forall>i \<in> {0..<length (timers st)}. \<forall>j \<in> {0..<length (timers st)}.
             status (timers st ! i) = Armed \<and> status (timers st ! j) = Armed \<longrightarrow> i = j)"
proof -
  have "one_session start"
    using assms(1) one_session_initial [of fl] one_session_listen [of "initial fl"] by blast
  then have inv: "one_session st"
    unfolding assms(2) by (rule one_session_run)
  have armed: "this_sessionId st \<noteq> [] \<and> this_timeout st = Some i
      \<and> armedFor (timers st ! i) = this_sessionId st"
    if "i < length (timers st)" "status (timers st ! i) = Armed" for i
    using one_session_armed [OF inv that] one_session_handle [OF inv] by simp
  have unique: "i = j"
    if "i < length (timers st)" "status (timers st ! i) = Armed"
      "j < length (timers st)" "status (timers st ! j) = Armed" for i j
    using armed [OF that(1,2)] armed [OF that(3,4)] by simp
  show ?thesis
  proof (intro conjI ballI impI)
    assume "this_sessionId st = [] \<and> this_sessionId st' \<noteq> []"
    then show "\<exists>rng. op = CreateSession rng
        \<and> this_sessionId st' = toString_hex (randomBytes NUM_RANDOM_ID_BYTES rng)"
      unfolding assms(3) using perform_activates by blast
  next
    assume "this_sessionId st \<noteq> []"
    then show "this_sessionId st' = this_sessionId st \<or> this_sessionId st' = []"
      unfolding assms(3) by (rule perform_keeps_or_clears)
  next
    fix i assume "i \<in> {0..<length (timers st)}" "status (timers st ! i) = Armed"
    then have "i < length (timers st)" "status (timers st ! i) = Armed" by simp_all
    from armed [OF this]
    show "this_sessionId st \<noteq> []" "this_timeout st = Some i"
      "armedFor (timers st ! i) = this_sessionId st" by blast+
  next
    fix i j
    assume "i \<in> {0..<length (timers st)}" "j \<in> {0..<length (timers st)}"
      "status (timers st ! i) = Armed \<and> status (timers st ! j) = Armed"
    then show "i = j" using unique by simp
  qed
qed

theorem at_most_one_session_example:
  "this_sessionId (run base_backend
       [CreateSession drawA, CloseSession ''031425364758697a8b9cadbecfe0f102'']
       example_idle) = []
   \<and> this_sessionId (perform base_backend (CreateSession drawB)
       (run base_backend [CreateSession drawA, CloseSession ''031425364758697a8b9cadbecfe0f102'']
          example_idle)) = ''0724415e7b98b5d2ef0c294663809dba''
   \<and> this_sessionId (run base_backend [CreateSession drawA] example_idle)
       = ''031425364758697a8b9cadbecfe0f102''
   \<and> this_sessionId (perform base_backend (CreateSession drawB)
       (run base_backend [CreateSession drawA] example_idle))
       = ''031425364758697a8b9cadbecfe0f102''
   \<and> status (timers (run base_backend [CreateSession drawA] example_idle) ! 0) = Armed
   \<and> this_timeout (run base_backend [CreateSession drawA] example_idle) = Some 0"
proof -
  have start: "example_idle = initial example_flags \<or> example_idle = listen (initial example_flags)"
    by (simp add: example_idle_def)
  note idle = at_most_one_session [OF start refl refl, of base_backend
      "[CreateSession drawA, CloseSession ''031425364758697a8b9cadbecfe0f102'']"
      "CreateSession drawB"]
  note active = at_most_one_session [OF start refl refl, of base_backend
      "[CreateSession drawA]" "CreateSession drawB"]
  have a: "this_sessionId (run base_backend
       [CreateSession drawA, CloseSession ''031425364758697a8b9cadbecfe0f102'']
       example_idle) = []"
    by code_simp
  have b: "this_sessionId (perform base_backend (CreateSession drawB)
       (run base_backend [CreateSession drawA, CloseSession ''031425364758697a8b9cadbecfe0f102'']
          example_idle)) \<noteq> []"
    by code_simp
  have c: "toString_hex (randomBytes NUM_RANDOM_ID_BYTES drawB) = ''0724415e7b98b5d2ef0c294663809dba''"
    by code_simp
  have created: "this_sessionId (perform base_backend (CreateSession drawB)
       (run base_backend [CreateSession drawA, CloseSession ''031425364758697a8b9cadbecfe0f102'']
          example_idle)) = ''0724415e7b98b5d2ef0c294663809dba''"
    using idle a b c by auto
  have d: "this_sessionId (run base_backend [CreateSession drawA] example_idle)
       = ''031425364758697a8b9cadbecfe0f102''"
    by code_simp
  have e: "length (timers (run base_backend [CreateSession drawA] example_idle)) = 1
      \<and> status (timers (run base_backend [CreateSession drawA] example_idle) ! 0) = Armed"
    by code_simp
  have f: "this_sessionId (perform base_backend (CreateSession drawB)
       (run base_backend [CreateSession drawA] example_idle)) \<noteq> []"
    by code_simp
  have kept: "this_sessionId (perform base_backend (CreateSession drawB)
       (run base_backend [CreateSession drawA] example_idle))
       = ''031425364758697a8b9cadbecfe0f102''"
    using active d f by auto
  have stored: "this_timeout (run base_backend [CreateSession drawA] example_idle) = Some 0"
    using active e by auto
  from a created d kept e stored show ?thesis by blast
qed

section \<open>The claims\<close>

text \<open>
  C3. With \<^verbatim>\<open>--idle-timeout-seconds 3000000\<close> the configured idle timeout is 3000000000
  milliseconds. \<open>createSession\<close> on the idle server returns and stores the hex encoding
  of the 16 bytes drawn, and passes those 3000000000 milliseconds to \<^verbatim>\<open>setTimeout\<close>,
  which arms the timer for 1 millisecond.
\<close>

theorem long_idle_timeout_arms_one_millisecond:
  "this_sessionId long_timeout_idle = []
   \<and> idleTimeoutSeconds (flags long_timeout_idle) * MILLISECONDS_PER_SECOND = 3000000000
   \<and> map drawA [0..<16] = [3, 20, 37, 54, 71, 88, 105, 122, 139, 156, 173, 190, 207, 224, 241, 2]
   \<and> fst (createSession drawA long_timeout_idle) = Some ''031425364758697a8b9cadbecfe0f102''
   \<and> this_sessionId (snd (createSession drawA long_timeout_idle)) =
       ''031425364758697a8b9cadbecfe0f102''
   \<and> this_timeout (snd (createSession drawA long_timeout_idle)) = Some 0
   \<and> timers (snd (createSession drawA long_timeout_idle)) =
       [\<lparr>status = Armed, delay = 1, armedFor = ''031425364758697a8b9cadbecfe0f102''\<rparr>]"
  by code_simp

text \<open>
  C1. Two \<open>createSession\<close> calls on the idle server both pass the check before either
  resumes. When the first resumes, its id is stored and its timer armed. When the second
  resumes, a session is active: it stores a second id in place of the first, and arms a
  second timer; the first timer stays armed under a handle nothing refers to any more.
\<close>

theorem second_id_installed_while_active:
  "this_sessionId (interleaved base_backend
       [CreateSessionCall, CreateSessionCall, RandomBytesDone drawA] example_idle) =
     ''031425364758697a8b9cadbecfe0f102''
   \<and> this_sessionId (interleaved base_backend
       [CreateSessionCall, CreateSessionCall, RandomBytesDone drawA, RandomBytesDone drawB]
       example_idle) = ''0724415e7b98b5d2ef0c294663809dba''
   \<and> this_timeout (interleaved base_backend
       [CreateSessionCall, CreateSessionCall, RandomBytesDone drawA, RandomBytesDone drawB]
       example_idle) = Some 1
   \<and> timers (interleaved base_backend
       [CreateSessionCall, CreateSessionCall, RandomBytesDone drawA, RandomBytesDone drawB]
       example_idle) =
       [\<lparr>status = Armed, delay = 120000, armedFor = ''031425364758697a8b9cadbecfe0f102''\<rparr>,
        \<lparr>status = Armed, delay = 120000, armedFor = ''0724415e7b98b5d2ef0c294663809dba''\<rparr>]"
  by code_simp

text \<open>
  C4. Called while a session is active, \<open>createSession\<close> returns \<^verbatim>\<open>null\<close> and only writes
  one line to the log: the active id, the stored handle and the timers stay as they were.
  \<^verbatim>\<open>POST /session\<close> then answers 500 with \<^verbatim>\<open>{value: {error: "session not created"}}\<close>.
\<close>

theorem createSession_when_active:
  assumes "this_sessionId st \<noteq> []"
  shows "fst (createSession rng st) = None
       \<and> snd (createSession rng st) =
           st\<lparr>effects := effects st @
                [Logged LError [LStr ''createSession() called when we were not ready!'']]\<rparr>
       \<and> this_sessionId (snd (createSession rng st)) = this_sessionId st
       \<and> this_timeout (snd (createSession rng st)) = this_timeout st
       \<and> timers (snd (createSession rng st)) = timers st
       \<and> fst (dispatch be rng PostSession sessionId body st) =
           \<lparr>statusCode = 500,
            json = JObj [(''value'', JObj [(''error'', JStr ''session not created'')])]\<rparr>
       \<and> snd (dispatch be rng PostSession sessionId body st) = snd (createSession rng st)"
  using assms
  by (simp add: createSession_def createSession_rejected_def logTo_def dispatch_def
      apiWrapper_def send_def SessionNotCreatedError_def)

theorem createSession_when_active_witness:
  "this_sessionId example_active \<noteq> []
   \<and> fst (createSession drawB example_active) = None
   \<and> this_sessionId (snd (createSession drawB example_active)) = ''031425364758697a8b9cadbecfe0f102''
   \<and> statusCode (fst (dispatch base_backend drawB PostSession [] (JObj []) example_active)) = 500"
proof -
  have sid: "this_sessionId example_active = ''031425364758697a8b9cadbecfe0f102''"
    by code_simp
  then have active: "this_sessionId example_active \<noteq> []"
    by simp
  show ?thesis
    using createSession_when_active [OF active, of drawB base_backend "[]" "JObj []"] sid
    by simp
qed

text \<open>
  C5. \<open>closeSession\<close> ends normally for every argument. With no active session, or an
  argument other than the active id, it changes nothing. With the active id it clears the
  stored id, clears the stored timer and forgets its handle, calls the close hook, and logs
  what the hook threw, if it threw. Both \<^verbatim>\<open>DELETE\<close> routes therefore always answer 200
  with \<^verbatim>\<open>{value: {}}\<close>.
\<close>

theorem closeSession_never_raises:
  "fst (closeSession be sessionId st) = Inr ()
   \<and> (this_sessionId st = [] \<or> sessionId \<noteq> this_sessionId st \<longrightarrow>
        snd (closeSession be sessionId st) = st)
   \<and> (this_sessionId st \<noteq> [] \<and> sessionId = this_sessionId st \<longrightarrow>
        this_sessionId (snd (closeSession be sessionId st)) = []
        \<and> this_timeout (snd (closeSession be sessionId st)) = None
        \<and> timers (snd (closeSession be sessionId st)) = timers (clearTimeout (this_timeout st) st)
        \<and> (\<forall>h. this_timeout st = Some h \<and> h < length (timers st) \<longrightarrow>
              status (timers (snd (closeSession be sessionId st)) ! h) = Cleared)
        \<and> effects (snd (closeSession be sessionId st)) =
            effects st
            @ [Logged LDebug [LStr ''Session ID'', LStr (this_sessionId st), LStr ''released''],
               CloseHook]
            @ (case closeSingleSession be of
                 Inr u \<Rightarrow> []
               | Inl error \<Rightarrow> [Logged LError [LThrown error]]))
   \<and> dispatch be rng DeleteSession sessionId body st =
        (\<lparr>statusCode = 200, json = JObj [(''value'', JObj [])]\<rparr>,
         snd (closeSession be sessionId st))
   \<and> dispatch be rng DeleteSessionWindow sessionId body st =
        (\<lparr>statusCode = 200, json = JObj [(''value'', JObj [])]\<rparr>,
         snd (closeSession be sessionId st))"
proof -
  have ok: "fst (closeSession be sessionId st) = Inr ()"
    by (simp add: closeSession_def closeSession_settle_def split: prod.split sum.split)
  have noop: "this_sessionId st = [] \<or> sessionId \<noteq> this_sessionId st \<Longrightarrow>
      snd (closeSession be sessionId st) = st"
    by (auto simp: closeSession_def closeSession_sync_def closeSession_settle_def)
  have match: "this_sessionId st \<noteq> [] \<and> sessionId = this_sessionId st \<Longrightarrow>
      this_sessionId (snd (closeSession be sessionId st)) = []
        \<and> this_timeout (snd (closeSession be sessionId st)) = None
        \<and> timers (snd (closeSession be sessionId st)) = timers (clearTimeout (this_timeout st) st)
        \<and> (\<forall>h. this_timeout st = Some h \<and> h < length (timers st) \<longrightarrow>
              status (timers (snd (closeSession be sessionId st)) ! h) = Cleared)
        \<and> effects (snd (closeSession be sessionId st)) =
            effects st
            @ [Logged LDebug [LStr ''Session ID'', LStr (this_sessionId st), LStr ''released''],
               CloseHook]
            @ (case closeSingleSession be of
                 Inr u \<Rightarrow> []
               | Inl error \<Rightarrow> [Logged LError [LThrown error]])"
    by (auto simp: closeSession_def closeSession_sync_def closeSession_settle_def
        clearTimeout_def logTo_def emit_def Let_def split: option.split sum.split)
  have del: "handler be rng DeleteSession sessionId body st =
      (Inr (Success (JObj [])), snd (closeSession be sessionId st))"
    using ok by (cases "closeSession be sessionId st") auto
  have delw: "handler be rng DeleteSessionWindow sessionId body st =
      (Inr (Success (JObj [])), snd (closeSession be sessionId st))"
    using ok by (cases "closeSession be sessionId st") auto
  have d1: "dispatch be rng DeleteSession sessionId body st =
        (\<lparr>statusCode = 200, json = JObj [(''value'', JObj [])]\<rparr>,
         snd (closeSession be sessionId st))"
    unfolding dispatch_def apiWrapper_def del by (simp add: send_def Success_def)
  have d2: "dispatch be rng DeleteSessionWindow sessionId body st =
        (\<lparr>statusCode = 200, json = JObj [(''value'', JObj [])]\<rparr>,
         snd (closeSession be sessionId st))"
    unfolding dispatch_def apiWrapper_def delw by (simp add: send_def Success_def)
  from ok noop match d1 d2 show ?thesis by blast
qed

theorem closeSession_never_raises_witness:
  "snd (closeSession base_backend ''0000'' example_idle) = example_idle
   \<and> fst (closeSession base_backend ''031425364758697a8b9cadbecfe0f102'' example_active) = Inr ()
   \<and> this_sessionId (snd (closeSession base_backend ''031425364758697a8b9cadbecfe0f102'' example_active)) = []
   \<and> status (timers (snd (closeSession base_backend ''031425364758697a8b9cadbecfe0f102'' example_active)) ! 0) = Cleared
   \<and> fst (dispatch base_backend drawB DeleteSession ''031425364758697a8b9cadbecfe0f102'' JUndefined example_active)
       = \<lparr>statusCode = 200, json = JObj [(''value'', JObj [])]\<rparr>"
proof -
  note idle = closeSession_never_raises [of base_backend "''0000''" example_idle drawB JUndefined]
  note active = closeSession_never_raises
    [of base_backend "''031425364758697a8b9cadbecfe0f102''" example_active drawB JUndefined]
  have matches: "this_sessionId example_active \<noteq> []
      \<and> ''031425364758697a8b9cadbecfe0f102'' = this_sessionId example_active"
    by (simp add: example_active_simps)
  have handle: "this_timeout example_active = Some 0 \<and> 0 < length (timers example_active)"
    by (simp add: example_active_simps)
  have "snd (closeSession base_backend ''0000'' example_idle) = example_idle"
    using idle by (simp add: example_idle_simps)
  moreover have "fst (closeSession base_backend ''031425364758697a8b9cadbecfe0f102'' example_active) = Inr ()"
    using active by blast
  moreover have "this_sessionId (snd (closeSession base_backend ''031425364758697a8b9cadbecfe0f102'' example_active)) = []"
    using active matches by blast
  moreover have "status (timers (snd (closeSession base_backend ''031425364758697a8b9cadbecfe0f102'' example_active)) ! 0) = Cleared"
    using active matches handle by blast
  moreover have "fst (dispatch base_backend drawB DeleteSession ''031425364758697a8b9cadbecfe0f102'' JUndefined example_active)
       = \<lparr>statusCode = 200, json = JObj [(''value'', JObj [])]\<rparr>"
    using active by simp
  ultimately show ?thesis by blast
qed

text \<open>
  C7. \<^verbatim>\<open>POST /session/{id}/url\<close> with a JSON object that has no \<^verbatim>\<open>url\<close> property answers
  400 with \<^verbatim>\<open>{value: {error: "invalid argument"}}\<close> and leaves the server as it was: no
  hook call, no session-id check, no timer refresh, for any session id in the path.
\<close>

theorem navigate_without_url:
  assumes "map_of kvs ''url'' = None"
  shows "dispatch be rng PostSessionUrl sessionId (JObj kvs) st =
           (\<lparr>statusCode = 400,
             json = JObj [(''value'', JObj [(''error'', JStr ''invalid argument'')])]\<rparr>, st)"
  using assms
  by (simp add: dispatch_def apiWrapper_def send_def InvalidArgumentError_def)

theorem navigate_without_url_witness:
  "map_of [(''uri'', JStr ''http://example.com/'')] ''url'' = None
   \<and> dispatch base_backend drawB PostSessionUrl ''031425364758697a8b9cadbecfe0f102''
        (JObj [(''uri'', JStr ''http://example.com/'')]) example_active =
       (\<lparr>statusCode = 400,
         json = JObj [(''value'', JObj [(''error'', JStr ''invalid argument'')])]\<rparr>, example_active)"
proof -
  have missing: "map_of [(''uri'', JStr ''http://example.com/'')] ''url'' = None"
    by simp
  show ?thesis
    using missing navigate_without_url [OF missing, of base_backend drawB
        "''031425364758697a8b9cadbecfe0f102''" example_active]
    by simp
qed

text \<open>
  C2. Whatever a handler does, \<open>apiWrapper\<close> answers. A returned response is sent; a
  thrown response is sent; any other thrown value is logged and \<open>UnknownError\<close>, status
  500, is sent. The status sent is the \<open>httpStatusCode\<close> of that response and the body
  is \<^verbatim>\<open>{value: payload}\<close>. This holds for the handler of every route.
\<close>

theorem dispatcher_wire:
  "(\<forall>response st1. fn st = (Inr response, st1) \<longrightarrow>
      apiWrapper fn st =
        (\<lparr>statusCode = httpStatusCode response, json = JObj [(''value'', val response)]\<rparr>, st1))
   \<and> (\<forall>error st1. fn st = (Inl (ThrownResponse error), st1) \<longrightarrow>
      apiWrapper fn st =
        (\<lparr>statusCode = httpStatusCode error, json = JObj [(''value'', val error)]\<rparr>, st1))
   \<and> (\<forall>error st1. fn st = (Inl (ThrownOther error), st1) \<longrightarrow>
      apiWrapper fn st =
        (\<lparr>statusCode = 500, json = JObj [(''value'', JObj [(''error'', JStr ''unknown error'')])]\<rparr>,
         logTo LError [LStr ''Caught error:'', LThrown (ThrownOther error)] st1))
   \<and> (\<exists>response.
        fst (dispatch be rng r sessionId body st) =
          \<lparr>statusCode = httpStatusCode response, json = JObj [(''value'', val response)]\<rparr>
        \<and> response =
            (case fst (handler be rng r sessionId body st) of
               Inr returned \<Rightarrow> returned
             | Inl (ThrownResponse error) \<Rightarrow> error
             | Inl (ThrownOther error) \<Rightarrow> UnknownError))"
  by (auto simp: apiWrapper_def dispatch_def send_def UnknownError_def
      split: prod.split sum.split thrown.split)

theorem dispatcher_wire_witness:
  "apiWrapper (handler base_backend drawA GetStatus [] JUndefined) example_idle =
     (\<lparr>statusCode = 200,
       json = JObj [(''value'', JObj [(''ready'', JBool True), (''message'', JStr ''ok'')])]\<rparr>,
      example_idle)
   \<and> apiWrapper (handler base_backend drawA GetSessionTitle ''0000'' JUndefined) example_idle =
     (\<lparr>statusCode = 404,
       json = JObj [(''value'', JObj [(''error'', JStr ''invalid session id'')])]\<rparr>,
      example_idle)
   \<and> fst (apiWrapper (handler base_backend drawA GetShutdown [] JUndefined) (initial example_flags)) =
     \<lparr>statusCode = 500,
      json = JObj [(''value'', JObj [(''error'', JStr ''unknown error'')])]\<rparr>"
proof -
  have returned: "handler base_backend drawA GetStatus [] JUndefined example_idle =
      (Inr (Success (JObj [(''ready'', JBool True), (''message'', JStr ''ok'')])), example_idle)"
    by (simp add: ready_def example_idle_simps)
  have thrown_response: "handler base_backend drawA GetSessionTitle ''0000'' JUndefined example_idle =
      (Inl (ThrownResponse InvalidSessionIdError), example_idle)"
    by (simp add: getTitle_def example_idle_simps)
  have thrown_other: "handler base_backend drawA GetShutdown [] JUndefined (initial example_flags) =
      (Inl (ThrownOther ''TypeError: Cannot read properties of null (reading 'close')''),
       emit ShutdownHook (initial example_flags))"
    by (simp add: shutdown_def initial_def emit_def closeSession_settle_def base_backend_def
        serverCloseOnNull_def)
  show ?thesis
    using dispatcher_wire [of "handler base_backend drawA GetStatus [] JUndefined" example_idle
        base_backend drawA GetStatus "[]" JUndefined] returned
      dispatcher_wire [of "handler base_backend drawA GetSessionTitle ''0000'' JUndefined" example_idle
        base_backend drawA GetStatus "[]" JUndefined] thrown_response
      dispatcher_wire [of "handler base_backend drawA GetShutdown [] JUndefined" "initial example_flags"
        base_backend drawA GetStatus "[]" JUndefined] thrown_other
    by (simp add: Success_def InvalidSessionIdError_def)
qed

text \<open>
  C10. The stored id is empty exactly when the stored handle is \<^verbatim>\<open>null\<close>: this holds
  initially, is kept by every operation (also by each half of a \<open>createSession\<close> whose
  \<^verbatim>\<open>await\<close> lets other requests in), and so holds after any run. Where it holds and the
  session-id check passes, the handle is not \<^verbatim>\<open>null\<close>: \<open>navigateTo\<close> and \<open>getTitle\<close>
  refresh that timer and go on, they do not fail on a \<^verbatim>\<open>null\<close> handle.
\<close>

theorem handle_invariant_preserved:
  "handle_invariant (initial fl)
   \<and> (handle_invariant st \<longrightarrow> handle_invariant (perform be op st))
   \<and> (handle_invariant st \<longrightarrow> handle_invariant (fst (segment_step be seg (st, suspended))))
   \<and> handle_invariant (run be ops (initial fl))
   \<and> handle_invariant (run be ops (listen (initial fl)))
   \<and> (handle_invariant st \<and> this_sessionId st \<noteq> [] \<and> sessionId = this_sessionId st \<longrightarrow>
        (\<exists>h. this_timeout st = Some h
           \<and> navigateTo be sessionId url st =
               (navigateToSingleSession be url, emit (NavigateHook url) (refresh h st))
           \<and> getTitle sessionId st = (Inr ''Title of the page'', refresh h st)))"
proof -
  have init: "handle_invariant (initial fl)"
    by (simp add: handle_invariant_def initial_def)
  from init have "handle_invariant (listen (initial fl))"
    by (simp add: handle_invariant_def listen_fields)
  then have listening: "handle_invariant (run be ops (listen (initial fl)))"
    by (rule handle_invariant_run)
  from init have "handle_invariant (run be ops (initial fl))"
    by (rule handle_invariant_run)
  with init listening show ?thesis
    using handle_invariant_perform handle_invariant_segment checked_calls by blast
qed

theorem handle_invariant_preserved_witness:
  "handle_invariant example_active
   \<and> handle_invariant (perform base_backend (CloseSession ''031425364758697a8b9cadbecfe0f102'') example_active)
   \<and> handle_invariant (fst (segment_step base_backend (RandomBytesDone drawB) (example_active, 1)))
   \<and> this_timeout example_active = Some 0
   \<and> getTitle ''031425364758697a8b9cadbecfe0f102'' example_active =
       (Inr ''Title of the page'', refresh 0 example_active)"
proof -
  note w = handle_invariant_preserved [of example_flags example_active base_backend
      "CloseSession ''031425364758697a8b9cadbecfe0f102''" "RandomBytesDone drawB" 1 "[]"
      "''031425364758697a8b9cadbecfe0f102''" JNull]
  have inv: "handle_invariant example_active"
    by (simp add: handle_invariant_def example_active_simps)
  have m: "this_sessionId example_active \<noteq> []
      \<and> ''031425364758697a8b9cadbecfe0f102'' = this_sessionId example_active"
    by (simp add: example_active_simps)
  have h: "this_timeout example_active = Some 0"
    by (simp add: example_active_simps)
  from w inv m have "\<exists>h. this_timeout example_active = Some h \<and>
      getTitle ''031425364758697a8b9cadbecfe0f102'' example_active =
         (Inr ''Title of the page'', refresh h example_active)"
    by blast
  with h have "getTitle ''031425364758697a8b9cadbecfe0f102'' example_active =
      (Inr ''Title of the page'', refresh 0 example_active)"
    by auto
  with w inv h show ?thesis by blast
qed

text \<open>
  C6, as the code has it. In a state where the stored id is empty exactly when the handle
  is \<^verbatim>\<open>null\<close>: \<open>getTitle\<close> throws \<open>InvalidSessionIdError\<close> (status 404) exactly when
  no session is active or the argument is not the active id. \<open>navigateTo\<close> throws it in
  that case too, without touching the server; with the active id it refreshes the timer,
  calls the navigation hook, and ends as the hook ends, so it throws
  \<open>InvalidSessionIdError\<close> also when the hook does. With the active id \<open>getTitle\<close>
  refreshes the timer and returns the fixed title; it calls no hook.
\<close>

theorem session_check_then_delegate:
  assumes "handle_invariant st"
  shows "((fst (getTitle sessionId st) = Inl (ThrownResponse InvalidSessionIdError))
           = (this_sessionId st = [] \<or> sessionId \<noteq> this_sessionId st))
       \<and> ((fst (navigateTo be sessionId url st) = Inl (ThrownResponse InvalidSessionIdError))
           = (this_sessionId st = [] \<or> sessionId \<noteq> this_sessionId st
              \<or> navigateToSingleSession be url = Inl (ThrownResponse InvalidSessionIdError)))
       \<and> httpStatusCode InvalidSessionIdError = 404
       \<and> (this_sessionId st = [] \<or> sessionId \<noteq> this_sessionId st \<longrightarrow>
             navigateTo be sessionId url st = (Inl (ThrownResponse InvalidSessionIdError), st)
             \<and> getTitle sessionId st = (Inl (ThrownResponse InvalidSessionIdError), st))
       \<and> (this_sessionId st \<noteq> [] \<and> sessionId = this_sessionId st \<longrightarrow>
             (\<exists>h. this_timeout st = Some h
                \<and> fst (navigateTo be sessionId url st) = navigateToSingleSession be url
                \<and> effects (snd (navigateTo be sessionId url st)) =
                    effects st @ [Refreshed h, NavigateHook url]
                \<and> fst (getTitle sessionId st) = Inr ''Title of the page''
                \<and> effects (snd (getTitle sessionId st)) = effects st @ [Refreshed h]))"
proof (cases "this_sessionId st = [] \<or> sessionId \<noteq> this_sessionId st")
  case True
  then show ?thesis
    by (auto simp: navigateTo_def getTitle_def InvalidSessionIdError_def)
next
  case False
  then have m: "this_sessionId st \<noteq> []" "sessionId = this_sessionId st" by simp_all
  from checked_calls [OF assms m, of be url] obtain h where h: "this_timeout st = Some h"
    and nav: "navigateTo be sessionId url st =
       (navigateToSingleSession be url, emit (NavigateHook url) (refresh h st))"
    and title: "getTitle sessionId st = (Inr ''Title of the page'', refresh h st)"
    by blast
  have n1: "fst (navigateTo be sessionId url st) = navigateToSingleSession be url"
    by (simp add: nav)
  have n2: "effects (snd (navigateTo be sessionId url st)) = effects st @ [Refreshed h, NavigateHook url]"
    by (simp add: nav emit_fields refresh_effects)
  have t1: "fst (getTitle sessionId st) = Inr ''Title of the page''"
    by (simp add: title)
  have t2: "effects (snd (getTitle sessionId st)) = effects st @ [Refreshed h]"
    by (simp add: title refresh_effects)
  show ?thesis
    using False h n1 n2 t1 t2 by (simp add: InvalidSessionIdError_def)
qed

theorem session_check_then_delegate_witness:
  "handle_invariant example_active
   \<and> fst (getTitle ''0000'' example_active) = Inl (ThrownResponse InvalidSessionIdError)
   \<and> fst (getTitle ''031425364758697a8b9cadbecfe0f102'' example_active) = Inr ''Title of the page''
   \<and> effects (snd (navigateTo base_backend ''031425364758697a8b9cadbecfe0f102''
         (JStr ''http://example.com/'') example_active)) =
       effects example_active @ [Refreshed 0, NavigateHook (JStr ''http://example.com/'')]"
proof -
  have inv: "handle_invariant example_active"
    by (simp add: handle_invariant_def example_active_simps)
  note bad = session_check_then_delegate [OF inv, of "''0000''" base_backend JNull]
  note good = session_check_then_delegate [OF inv, of "''031425364758697a8b9cadbecfe0f102''"
      base_backend "JStr ''http://example.com/''"]
  have differs: "''0000'' \<noteq> this_sessionId example_active"
    by (simp add: example_active_simps)
  have m: "this_sessionId example_active \<noteq> []
      \<and> ''031425364758697a8b9cadbecfe0f102'' = this_sessionId example_active"
    by (simp add: example_active_simps)
  have h: "this_timeout example_active = Some 0"
    by (simp add: example_active_simps)
  have a: "fst (getTitle ''0000'' example_active) = Inl (ThrownResponse InvalidSessionIdError)"
    using bad differs by blast
  have b: "fst (getTitle ''031425364758697a8b9cadbecfe0f102'' example_active) = Inr ''Title of the page''"
    using good m by blast
  from good m obtain k where "this_timeout example_active = Some k"
    and "effects (snd (navigateTo base_backend ''031425364758697a8b9cadbecfe0f102''
         (JStr ''http://example.com/'') example_active)) =
       effects example_active @ [Refreshed k, NavigateHook (JStr ''http://example.com/'')]"
    by blast
  with h have c: "effects (snd (navigateTo base_backend ''031425364758697a8b9cadbecfe0f102''
         (JStr ''http://example.com/'') example_active)) =
       effects example_active @ [Refreshed 0, NavigateHook (JStr ''http://example.com/'')]"
    by simp
  from inv a b c show ?thesis by blast
qed

text \<open>
  C6, as stated, fails for \<open>navigateTo\<close>: the class's own \<open>navigateToSingleSession\<close>
  throws \<open>InvalidSessionIdError\<close>, so with an active session and its very id the call
  throws that error although the id check passed.
\<close>

theorem navigateTo_not_only_on_bad_id:
  "\<not> ((fst (navigateTo base_backend ''031425364758697a8b9cadbecfe0f102''
              (JStr ''http://example.com/'') example_active)
         = Inl (ThrownResponse InvalidSessionIdError))
        = (this_sessionId example_active = []
           \<or> ''031425364758697a8b9cadbecfe0f102'' \<noteq> this_sessionId example_active))"
  by (simp add: navigateTo_def example_active_simps base_backend_def Let_def)

text \<open>
  C8. \<open>shutdown\<close> on an active server calls the close hook and then the shutdown hook
  (what the close hook threw is logged after that); on an idle server it calls the shutdown
  hook alone. Afterwards no session is stored and the timer of the closed session is
  cleared. It ends as the shutdown hook ends. When that hook returns and the server is
  listening or was, \<^verbatim>\<open>GET /shutdown\<close> closes the listener and answers 200 with
  \<^verbatim>\<open>{value: {}}\<close>.
\<close>

theorem shutdown_closes_first:
  "effects (snd (shutdown be st)) =
      effects st
      @ (if this_sessionId st \<noteq> []
         then [Logged LDebug [LStr ''Session ID'', LStr (this_sessionId st), LStr ''released''],
               CloseHook]
         else [])
      @ [ShutdownHook]
      @ (if this_sessionId st \<noteq> []
         then (case closeSingleSession be of
                 Inr u \<Rightarrow> []
               | Inl error \<Rightarrow> [Logged LError [LThrown error]])
         else [])
   \<and> this_sessionId (snd (shutdown be st)) = []
   \<and> (this_sessionId st \<noteq> [] \<longrightarrow>
        this_timeout (snd (shutdown be st)) = None
        \<and> timers (snd (shutdown be st)) = timers (clearTimeout (this_timeout st) st))
   \<and> fst (shutdown be st) = shutdownSingleSession be
   \<and> (shutdownSingleSession be = Inr () \<and> server st \<noteq> None \<longrightarrow>
        dispatch be rng GetShutdown sessionId body st =
          (\<lparr>statusCode = 200, json = JObj [(''value'', JObj [])]\<rparr>,
           (snd (shutdown be st))\<lparr>server := Some Closed\<rparr>))"
proof -
  have "dispatch be rng GetShutdown sessionId body st =
          (\<lparr>statusCode = 200, json = JObj [(''value'', JObj [])]\<rparr>,
           (snd (shutdown be st))\<lparr>server := Some Closed\<rparr>)"
    if "shutdownSingleSession be = Inr ()" "server st \<noteq> None"
    unfolding dispatch_def apiWrapper_def handler_GetShutdown [OF that]
    by (simp add: send_def Success_def)
  then show ?thesis
    using shutdown_effects [of be st] shutdown_session(1) [of be st]
      shutdown_session(2,3) [of st be] shutdown_unfold(2) [of be st]
    by blast
qed

theorem shutdown_closes_first_witness:
  "effects (snd (shutdown base_backend example_active)) =
      effects example_active
      @ [Logged LDebug [LStr ''Session ID'', LStr ''031425364758697a8b9cadbecfe0f102'',
                        LStr ''released''],
         CloseHook, ShutdownHook,
         Logged LError [LThrown (ThrownResponse InvalidSessionIdError)]]
   \<and> this_timeout (snd (shutdown base_backend example_active)) = None
   \<and> fst (dispatch base_backend drawB GetShutdown [] JUndefined example_active) =
        \<lparr>statusCode = 200, json = JObj [(''value'', JObj [])]\<rparr>
   \<and> server (snd (dispatch base_backend drawB GetShutdown [] JUndefined example_active)) =
        Some Closed"
proof -
  note w = shutdown_closes_first [of base_backend example_active drawB "[]" JUndefined]
  have active: "this_sessionId example_active \<noteq> []"
    by (simp add: example_active_simps)
  have hook: "shutdownSingleSession base_backend = Inr () \<and> server example_active \<noteq> None"
    by (simp add: base_backend_def example_active_simps)
  have close_hook: "closeSingleSession base_backend = Inl (ThrownResponse InvalidSessionIdError)"
    by (simp add: base_backend_def)
  have a: "effects (snd (shutdown base_backend example_active)) =
      effects example_active
      @ [Logged LDebug [LStr ''Session ID'', LStr ''031425364758697a8b9cadbecfe0f102'',
                        LStr ''released''],
         CloseHook, ShutdownHook,
         Logged LError [LThrown (ThrownResponse InvalidSessionIdError)]]"
    using w active close_hook by (simp add: example_active_simps)
  have b: "this_timeout (snd (shutdown base_backend example_active)) = None"
    using w active by blast
  have c: "dispatch base_backend drawB GetShutdown [] JUndefined example_active =
          (\<lparr>statusCode = 200, json = JObj [(''value'', JObj [])]\<rparr>,
           (snd (shutdown base_backend example_active))\<lparr>server := Some Closed\<rparr>)"
    using w hook by blast
  from a b c show ?thesis by simp
qed

text \<open>
  C9. Two \<open>createSession\<close> calls that both pass the check before either resumes leave
  the timer of the first armed and unreferenced. After the second session is closed and a
  third created, timer 0, armed for the first id, is still armed while the third id is
  stored under handle 2. When timer 0 fires its callback closes the stored session, the
  third one: its id then gets 404 from \<^verbatim>\<open>GET /session/{id}/title\<close>.
\<close>

theorem stale_timer_closes_later_session:
  "timers (interleaved base_backend overlapping_creates example_idle) ! 0 =
       \<lparr>status = Armed, delay = 120000, armedFor = ''031425364758697a8b9cadbecfe0f102''\<rparr>
   \<and> this_sessionId (interleaved base_backend overlapping_creates example_idle) =
       ''c0c5cacfd4d9dee3e8edf2f7fc01060b''
   \<and> this_timeout (interleaved base_backend overlapping_creates example_idle) = Some 2
   \<and> this_sessionId
        (timerFires base_backend 0 (interleaved base_backend overlapping_creates example_idle)) = []
   \<and> fst (dispatch base_backend drawB GetSessionTitle ''c0c5cacfd4d9dee3e8edf2f7fc01060b'' JUndefined
        (timerFires base_backend 0 (interleaved base_backend overlapping_creates example_idle))) =
       \<lparr>statusCode = 404, json = JObj [(''value'', JObj [(''error'', JStr ''invalid session id'')])]\<rparr>"
  by code_simp

end
